theory Spec2Isabelle
  imports Main "HOL-Library.AList"
begin

section \<open>Values exchanged with the relay and with the application (types.ts)\<close>

text \<open>
  The client is event driven: every function of \<^verbatim>\<open>client.ts\<close> runs to its next
  \<^verbatim>\<open>await\<close> and the callbacks it registers run later, when the transport, a local
  socket, a timer or the application fires them. The model is a state record (the fields
  of the \<^verbatim>\<open>Client\<close> object, the objects it has created and the trace of what it has
  done so far) and one function per source function or registered callback; an event of
  the environment selects the callback that runs.
\<close>

datatype protocol_mode = Http | Tcp | Udp

text \<open>A JavaScript \<^verbatim>\<open>Error\<close> object: its name and its message.\<close>

datatype js_error = JsError (err_name: string) (message: string)

text \<open>A thrown value: an \<^verbatim>\<open>Error\<close>, or any other value, given by its \<^verbatim>\<open>String(v)\<close>.\<close>

datatype thrown = ThrownError js_error | ThrownValue string

text \<open>\<^verbatim>\<open>err instanceof Error ? err : new Error(String(err))\<close>\<close>

fun as_Error :: "thrown \<Rightarrow> js_error" where
  "as_Error (ThrownError e) = e"
| "as_Error (ThrownValue s) = JsError ''Error'' s"

text \<open>
  What a call of application code does: it returns a value, it throws, or (an \<^verbatim>\<open>async\<close>
  function whose body throws, or any function that returns a promise that is later
  rejected) it returns normally and the promise it returned rejects.
\<close>

datatype 'a outcome = Returns 'a | Throws thrown | Rejects thrown

text \<open>What \<^verbatim>\<open>await Promise.resolve(call)\<close> throws, if it throws.\<close>

fun failure :: "'a outcome \<Rightarrow> thrown option" where
  "failure (Returns x) = None"
| "failure (Throws err) = Some err"
| "failure (Rejects err) = Some err"

text \<open>
  A \<^verbatim>\<open>Buffer\<close> is its bytes. A JavaScript string is given by the bytes of its UTF-8
  encoding, so that \<^verbatim>\<open>Buffer.from(text)\<close> is the same bytes. The other direction is not
  the identity: \<^verbatim>\<open>buf.toString()\<close> decodes the bytes as UTF-8 and replaces what does not
  decode, so the string it yields is kept as \<open>Decoded buf\<close>.
\<close>

type_synonym buffer = string
type_synonym header_map = "(string \<times> string) list"

datatype body_text = Text string | Decoded buffer

text \<open>Base64 text, given by the bytes it encodes: \<^verbatim>\<open>buf.toString("base64")\<close> is
  \<open>Base64 buf\<close> and \<^verbatim>\<open>Buffer.from(text, "base64")\<close> is \<open>from_base64 text\<close>.\<close>

datatype base64 = Base64 buffer

fun from_base64 :: "base64 \<Rightarrow> buffer" where
  "from_base64 (Base64 b) = b"

record incoming_request =
  req_id :: string
  req_method :: string
  req_path :: string
  req_headers :: header_map
  req_body :: "buffer option"

datatype body = BufferBody buffer | StringBody string

record incoming_response =
  statusCode :: int
  resp_headers :: "header_map option"
  resp_body :: "body option"

text \<open>\<^verbatim>\<open>RequestMessage\<close>: \<^verbatim>\<open>headers\<close> may be null on the wire, \<^verbatim>\<open>body\<close> is optional.\<close>

record request_message =
  rm_requestId :: string
  rm_method :: string
  rm_path :: string
  rm_headers :: "header_map option"
  rm_body :: "string option"

text \<open>
  An inbound message after \<^verbatim>\<open>JSON.parse\<close>, by its \<^verbatim>\<open>type\<close> discriminator, with the
  fields the source reads (each taken at the type its cast declares). \<open>Unrecognised t\<close>
  is an object whose discriminator is none of the six kinds of the \<^verbatim>\<open>switch\<close>.
\<close>

datatype in_frame =
    Tunnel_opened string
  | Tcp_connection string
  | Tcp_data_in string base64
  | Udp_data string base64
  | Request request_message
  | Error_frame string
  | Unrecognised string

text \<open>The four frames the client serialises with \<^verbatim>\<open>JSON.stringify\<close> and sends.\<close>

datatype out_frame =
    Open_tunnel string protocol_mode int
  | Response string int header_map body_text
  | Tcp_data string base64
  | Udp_response string base64

record client_options =
  opt_serverUrl :: "string option"
  opt_apiKey :: string
  opt_protocol :: "protocol_mode option"
  opt_port :: int
  opt_remotePort :: "int option"
  opt_onOpen :: "(string \<Rightarrow> unit outcome) option"
  opt_onRequest :: "(incoming_request \<Rightarrow> incoming_response outcome) option"
  opt_onError :: "(js_error \<Rightarrow> unit outcome) option"

section \<open>The objects of the environment\<close>

text \<open>The \<^verbatim>\<open>readyState\<close> of a WebSocket object.\<close>

datatype ready_state = CONNECTING | OPEN | CLOSING | CLOSED

datatype promise_state = Pending | Fulfilled | Rejected thrown

text \<open>
  A WebSocket object made by \<^verbatim>\<open>connectOnce\<close>, with what that call attached to it: the
  promise it returned, whether the \<^verbatim>\<open>open\<close> callback has added the second \<^verbatim>\<open>close\<close>
  listener, and whether the ping interval is set.
\<close>

record websocket =
  readyState :: ready_state
  lifecycle :: promise_state
  close_listener :: bool
  pingInterval :: bool

text \<open>A datagram socket made by \<^verbatim>\<open>handleUDPData\<close>, with the packet id its callbacks
  close over and the 5000 ms timer.\<close>

record udp_exchange =
  ux_packetId :: string
  ux_open :: bool
  ux_timer :: bool

text \<open>What the upstream HTTP server answered: \<^verbatim>\<open>proxyRes\<close> and the chunks read from it.\<close>

datatype header_value = Single string | Multi "string list" | Undefined

record upstream_response =
  up_statusCode :: "int option"
  up_headers :: "(string \<times> header_value) list"
  up_chunks :: "buffer list"

record request_options =
  ro_hostname :: string
  ro_port :: int
  ro_path :: string
  ro_method :: string
  ro_headers :: header_map
  ro_timeout :: nat

text \<open>
  The libraries the client calls (Node's \<^verbatim>\<open>http\<close>, \<^verbatim>\<open>net\<close>, \<^verbatim>\<open>dgram\<close>, and \<^verbatim>\<open>ws\<close>) throw
  on some arguments. Which request options \<^verbatim>\<open>http.request\<close> refuses (a path, a method or
  a header it rejects, a port out of range) and which error objects the libraries throw
  is not in the repository: it is a parameter of the model. \<open>http_request_throws\<close> is
  what \<^verbatim>\<open>http.request(options)\<close> throws, if it throws; the other three are the error
  objects for a port that \<^verbatim>\<open>net.createConnection\<close> refuses, for a port that the
  \<^verbatim>\<open>send\<close> of a datagram socket refuses, and for a \<^verbatim>\<open>send\<close> on a WebSocket in the given
  state.
\<close>

record node_lib =
  http_request_throws :: "request_options \<Rightarrow> js_error option"
  net_bad_port :: "int \<Rightarrow> js_error"
  dgram_bad_port :: "int \<Rightarrow> js_error"
  ws_not_open :: "ready_state \<Rightarrow> js_error"

text \<open>
  An invocation of \<^verbatim>\<open>handleRequest\<close>: suspended at the \<^verbatim>\<open>await\<close> of the handler's
  result (which is carried along), at the \<^verbatim>\<open>await\<close> of \<^verbatim>\<open>proxyHTTP\<close>, at the
  \<^verbatim>\<open>await\<close> of \<^verbatim>\<open>sendResponse\<close>, or finished. \<open>inv_proxied\<close> says that the
  invocation made an \<^verbatim>\<open>http.request\<close>, whose callbacks may still fire.
\<close>

datatype await_point =
    AwaitHandler "incoming_response outcome"
  | AwaitProxy
  | AwaitSend
  | Finished

record invocation =
  inv_req :: incoming_request
  inv_at :: await_point
  inv_proxied :: bool

text \<open>
  The four lines the client logs, each with the value it interpolates:
  \<^verbatim>\<open>Connection error: ${error.message}. Retrying in ${backoff}ms...\<close>,
  \<^verbatim>\<open>Failed to parse message: ${err}\<close>, \<^verbatim>\<open>Error handling request: ${error.message}\<close> and
  \<^verbatim>\<open>Callback error: ${err}\<close>.
\<close>

datatype log_line =
    Connection_error string nat
  | Failed_to_parse thrown
  | Error_handling_request string
  | Callback_error thrown

text \<open>
  Everything the client does to the outside, in the order it does it. \<open>WsSend w f\<close> is a
  frame \<open>f\<close> that \<^verbatim>\<open>send\<close> has accepted on WebSocket \<open>w\<close>. \<open>Uncaught\<close> is an exception that
  leaves a listener, \<open>UnhandledRejection\<close> a rejected promise that nothing awaits and
  nothing catches: both reach the Node process, which by default ends; what the process
  does with them is not part of the model.
\<close>

datatype effect =
    NewWebSocket nat string
  | WsSend nat out_frame
  | WsPing nat
  | WsCloseCall nat
  | LogWarn log_line
  | LogError log_line
  | CallOnOpen string
  | CallOnError js_error
  | CallOnRequest incoming_request
  | NetConnect nat int
  | SockWrite nat buffer
  | SockDestroy nat
  | DgramCreate nat
  | DgramSend nat buffer int
  | DgramClose nat
  | HttpRequest nat request_options "buffer option"
  | HttpDestroy nat
  | Sleep nat
  | Uncaught thrown
  | UnhandledRejection thrown

text \<open>Where the \<^verbatim>\<open>while\<close> loop of \<^verbatim>\<open>connect\<close> stands: not started, at
  \<^verbatim>\<open>await this.connectOnce()\<close> for a WebSocket, at \<^verbatim>\<open>await this.sleep(backoff)\<close>, or
  left.\<close>

datatype loop_state = Idle | Awaiting nat | Sleeping | Exited

text \<open>
  The state. First the fields of the \<^verbatim>\<open>Client\<close> object: the eight that the constructor
  sets for good (the logger is the trace), then \<^verbatim>\<open>ws\<close>, \<^verbatim>\<open>closed\<close> and
  \<^verbatim>\<open>tcpConnections\<close> (a JavaScript \<^verbatim>\<open>Map\<close>, kept in insertion order). Then the locals
  of \<^verbatim>\<open>connect\<close>: \<open>backoff\<close> (which \<^verbatim>\<open>connect\<close> sets to 1000 when it is called) and the
  place of its loop. Then the objects made so far, each known by its index: the
  WebSockets, the local stream sockets (by the connection id their callbacks close over),
  the datagram sockets and the invocations of \<^verbatim>\<open>handleRequest\<close>. Then the libraries, and
  last the trace.
\<close>

record client =
  serverUrl :: string
  apiKey :: string
  protocol :: protocol_mode
  port :: int
  remotePort :: int
  onOpen :: "(string \<Rightarrow> unit outcome) option"
  onRequest :: "(incoming_request \<Rightarrow> incoming_response outcome) option"
  onError :: "(js_error \<Rightarrow> unit outcome) option"
  ws :: "nat option"
  closed :: bool
  tcpConnections :: "(string \<times> nat) list"
  backoff :: nat
  loop :: loop_state
  sockets :: "websocket list"
  tcp_socks :: "string list"
  dgrams :: "udp_exchange list"
  invocations :: "invocation list"
  node :: node_lib
  trace :: "effect list"

section \<open>The client (client.ts)\<close>

definition emit :: "effect \<Rightarrow> client \<Rightarrow> client" where
  "emit e c = c\<lparr>trace := trace c @ [e]\<rparr>"

definition maxBackoff :: nat where
  "maxBackoff = 30000"

text \<open>The constructor, with the libraries the client will run on.\<close>

definition Client_new :: "node_lib \<Rightarrow> client_options \<Rightarrow> client" where
  "Client_new lib options =
     \<lparr>serverUrl = (case opt_serverUrl options of None \<Rightarrow> ''wss://api.outray.dev'' | Some u \<Rightarrow> u),
      apiKey = opt_apiKey options,
      protocol = (case opt_protocol options of None \<Rightarrow> Http | Some p \<Rightarrow> p),
      port = opt_port options,
      remotePort = (case opt_remotePort options of None \<Rightarrow> 0 | Some p \<Rightarrow> p),
      onOpen = opt_onOpen options,
      onRequest = opt_onRequest options,
      onError = opt_onError options,
      ws = None,
      closed = False,
      tcpConnections = [],
      backoff = 1000,
      loop = Idle,
      sockets = [],
      tcp_socks = [],
      dgrams = [],
      invocations = [],
      node = lib,
      trace = []\<rparr>"

subsection \<open>safeCallback, safeOnError\<close>

text \<open>
  \<open>safeCallback c fn\<close>: \<open>fn\<close> is what the call \<^verbatim>\<open>fn()\<close> did. The \<^verbatim>\<open>try\<close> block catches what
  the call throws. A promise that the call returns is dropped: when it rejects, no
  handler is attached to it.
\<close>

definition safeCallback :: "client \<Rightarrow> unit outcome \<Rightarrow> client" where
  "safeCallback c fn =
     (case fn of
        Returns _ \<Rightarrow> c
      | Throws err \<Rightarrow> emit (LogError (Callback_error err)) c
      | Rejects err \<Rightarrow> emit (UnhandledRejection err) c)"

definition safeOnError :: "client \<Rightarrow> js_error \<Rightarrow> client" where
  "safeOnError c err =
     (case onError c of
        None \<Rightarrow> c
      | Some f \<Rightarrow> safeCallback (emit (CallOnError err) c) (f err))"

subsection \<open>send of the WebSocket library\<close>

text \<open>
  \<^verbatim>\<open>ws.send(data, cb)\<close>: on a WebSocket that is still connecting it throws; on an open one
  the frame is accepted; on one that is closing or closed nothing is sent, and the
  callback, when there is one, gets an error.
\<close>

datatype send_result = Sent | SendThrows js_error | SendFails js_error

definition ws_send :: "client \<Rightarrow> nat \<Rightarrow> send_result" where
  "ws_send c w =
     (case readyState (sockets c ! w) of
        CONNECTING \<Rightarrow> SendThrows (ws_not_open (node c) CONNECTING)
      | OPEN \<Rightarrow> Sent
      | CLOSING \<Rightarrow> SendFails (ws_not_open (node c) CLOSING)
      | CLOSED \<Rightarrow> SendFails (ws_not_open (node c) CLOSED))"

subsection \<open>sendResponse\<close>

record incoming_response_with_id = incoming_response +
  resp_id :: string

definition response_frame :: "incoming_response_with_id \<Rightarrow> out_frame" where
  "response_frame resp =
     Response (resp_id resp) (statusCode resp)
       (case resp_headers resp of None \<Rightarrow> [] | Some h \<Rightarrow> h)
       (case resp_body resp of
          None \<Rightarrow> Text []
        | Some (BufferBody b) \<Rightarrow> Decoded b
        | Some (StringBody s) \<Rightarrow> Text s)"

text \<open>\<open>Inl\<close> is the rejection of the promise with nothing sent: by the guard, by the
  exception of \<^verbatim>\<open>send\<close> in the executor, or by the error that \<^verbatim>\<open>send\<close> hands to the
  callback. After \<open>Inr\<close> the frame is accepted and the promise waits for the callback.\<close>

definition sendResponse :: "client \<Rightarrow> incoming_response_with_id \<Rightarrow> thrown + client" where
  "sendResponse c resp =
     (case ws c of
        None \<Rightarrow> Inl (ThrownError (JsError ''Error'' ''Client is closed''))
      | Some w \<Rightarrow>
          if closed c then Inl (ThrownError (JsError ''Error'' ''Client is closed''))
          else (case ws_send c w of
                  Sent \<Rightarrow> Inr (emit (WsSend w (response_frame resp)) c)
                | SendThrows e \<Rightarrow> Inl (ThrownError e)
                | SendFails e \<Rightarrow> Inl (ThrownError e)))"

subsection \<open>handleRequest, proxyHTTP\<close>

definition set_await :: "client \<Rightarrow> nat \<Rightarrow> await_point \<Rightarrow> client" where
  "set_await c k a =
     c\<lparr>invocations := (invocations c)[k := (invocations c ! k)\<lparr>inv_at := a\<rparr>]\<rparr>"

text \<open>The \<^verbatim>\<open>catch\<close> block of invocation \<open>k\<close>.\<close>

definition handleRequest_catch :: "client \<Rightarrow> nat \<Rightarrow> thrown \<Rightarrow> client" where
  "handleRequest_catch c k err =
     (let error = as_Error err;
          c1 = emit (LogError (Error_handling_request (message error))) c;
          c2 = safeOnError c1 error
      in set_await c2 k Finished)"

text \<open>Invocation \<open>k\<close> once the \<^verbatim>\<open>await\<close> that yields \<^verbatim>\<open>resp\<close> is over (or at once, in
  the third branch): it throws into the \<^verbatim>\<open>catch\<close> block, or builds \<^verbatim>\<open>respWithId\<close>
  and calls \<^verbatim>\<open>sendResponse\<close>.\<close>

definition handleRequest_resume ::
    "client \<Rightarrow> nat \<Rightarrow> incoming_request \<Rightarrow> incoming_response outcome \<Rightarrow> client" where
  "handleRequest_resume c k req r =
     (case r of
        Throws err \<Rightarrow> handleRequest_catch c k err
      | Rejects err \<Rightarrow> handleRequest_catch c k err
      | Returns resp \<Rightarrow>
          (let respWithId =
                 \<lparr>statusCode = statusCode resp, resp_headers = resp_headers resp,
                  resp_body = resp_body resp, resp_id = req_id req\<rparr>
           in case sendResponse c respWithId of
                Inl err \<Rightarrow> handleRequest_catch c k err
              | Inr c' \<Rightarrow> set_await c' k AwaitSend))"

text \<open>The callback of \<^verbatim>\<open>ws.send\<close> in \<^verbatim>\<open>sendResponse\<close>, and the end of invocation \<open>k\<close>.\<close>

definition send_callback :: "client \<Rightarrow> nat \<Rightarrow> thrown option \<Rightarrow> client" where
  "send_callback c k err =
     (case err of
        Some e \<Rightarrow> handleRequest_catch c k e
      | None \<Rightarrow> set_await c k Finished)"

definition proxy_options :: "client \<Rightarrow> incoming_request \<Rightarrow> request_options" where
  "proxy_options c req =
     \<lparr>ro_hostname = ''localhost'', ro_port = port c, ro_path = req_path req,
      ro_method = req_method req, ro_headers = req_headers req, ro_timeout = 30000\<rparr>"

text \<open>The executor of the promise of \<^verbatim>\<open>proxyHTTP\<close>, for invocation \<open>k\<close>: \<open>Inl\<close> when
  \<^verbatim>\<open>http.request\<close> throws, which rejects the promise; otherwise the request is made, the
  three callbacks are attached to it and the body, if there is one, is written.\<close>

definition proxyHTTP :: "client \<Rightarrow> nat \<Rightarrow> incoming_request \<Rightarrow> js_error + client" where
  "proxyHTTP c k req =
     (let options = proxy_options c req in
      case http_request_throws (node c) options of
        Some e \<Rightarrow> Inl e
      | None \<Rightarrow> Inr (emit (HttpRequest k options (req_body req)) c))"

text \<open>\<^verbatim>\<open>resolve\<close> of the promise of \<^verbatim>\<open>proxyHTTP\<close>: the first call resumes the invocation,
  a later one does nothing.\<close>

definition proxy_resolve :: "client \<Rightarrow> nat \<Rightarrow> incoming_response \<Rightarrow> client" where
  "proxy_resolve c k resp =
     (if inv_at (invocations c ! k) = AwaitProxy
      then handleRequest_resume c k (inv_req (invocations c ! k)) (Returns resp)
      else c)"

fun header_entry :: "string \<times> header_value \<Rightarrow> (string \<times> string) option" where
  "header_entry (key, Single v) = Some (key, v)"
| "header_entry (key, Multi (v # vs)) = Some (key, v)"
| "header_entry (key, Multi []) = None"
| "header_entry (key, Undefined) = None"

definition proxy_on_end :: "client \<Rightarrow> nat \<Rightarrow> upstream_response \<Rightarrow> client" where
  "proxy_on_end c k proxyRes =
     proxy_resolve c k
       \<lparr>statusCode = (case up_statusCode proxyRes of None \<Rightarrow> 500 | Some n \<Rightarrow> n),
        resp_headers = Some (List.map_filter header_entry (up_headers proxyRes)),
        resp_body = Some (BufferBody (concat (up_chunks proxyRes)))\<rparr>"

definition proxy_on_error :: "client \<Rightarrow> nat \<Rightarrow> js_error \<Rightarrow> client" where
  "proxy_on_error c k err =
     proxy_resolve c k
       \<lparr>statusCode = 502, resp_headers = None,
        resp_body = Some (StringBody (''Proxy Error: '' @ message err))\<rparr>"

definition proxy_on_timeout :: "client \<Rightarrow> nat \<Rightarrow> client" where
  "proxy_on_timeout c k =
     proxy_resolve (emit (HttpDestroy k) c) k
       \<lparr>statusCode = 504, resp_headers = None,
        resp_body = Some (StringBody ''Proxy Timeout'')\<rparr>"

definition new_invocation ::
    "client \<Rightarrow> incoming_request \<Rightarrow> await_point \<Rightarrow> bool \<Rightarrow> client" where
  "new_invocation c req a proxied =
     c\<lparr>invocations :=
         invocations c @ [\<lparr>inv_req = req, inv_at = a, inv_proxied = proxied\<rparr>]\<rparr>"

text \<open>
  \<^verbatim>\<open>handleRequest\<close> up to its first \<^verbatim>\<open>await\<close>. With a handler, the handler is called and
  its result is awaited: the invocation resumes at the event \<open>HandlerSettled\<close>, whether
  the handler returned a value, returned a promise or threw. With the proxy, it resumes
  when the promise of \<^verbatim>\<open>proxyHTTP\<close> is resolved; when \<^verbatim>\<open>http.request\<close> throws, that
  promise is rejected and the \<^verbatim>\<open>catch\<close> block runs. In the third branch nothing is
  awaited before \<^verbatim>\<open>sendResponse\<close> is called.
\<close>

definition handleRequest :: "client \<Rightarrow> incoming_request \<Rightarrow> client" where
  "handleRequest c req =
     (let k = length (invocations c) in
      case onRequest c of
        Some handler \<Rightarrow>
          new_invocation (emit (CallOnRequest req) c) req (AwaitHandler (handler req)) False
      | None \<Rightarrow>
          if port c > 0 \<and> protocol c = Http
          then (case proxyHTTP c k req of
                  Inr c' \<Rightarrow> new_invocation c' req AwaitProxy True
                | Inl e \<Rightarrow>
                    handleRequest_catch (new_invocation c req Finished False) k (ThrownError e))
          else handleRequest_resume (new_invocation c req Finished False) k req
                 (Returns \<lparr>statusCode = 501, resp_headers = None,
                           resp_body = Some (StringBody ''Not implemented'')\<rparr>))"

subsection \<open>handleTCPConnection, handleTCPData\<close>

text \<open>
  Local stream socket \<open>sid\<close> is the \<open>sid\<close>-th one created; \<open>tcp_socks c ! sid\<close> is the
  \<^verbatim>\<open>connId\<close> its callbacks close over. \<^verbatim>\<open>net.createConnection\<close> throws on a port outside
  0..65535, before anything is registered: the second component is that exception.
\<close>

definition handleTCPConnection :: "client \<Rightarrow> string \<Rightarrow> client \<times> js_error option" where
  "handleTCPConnection c connId =
     (if 0 \<le> port c \<and> port c < 65536
      then (let localSocket = length (tcp_socks c);
                c1 = emit (NetConnect localSocket (port c)) c
            in (c1\<lparr>tcp_socks := tcp_socks c1 @ [connId],
                   tcpConnections := AList.update connId localSocket (tcpConnections c1)\<rparr>,
                None))
      else (c, Some (net_bad_port (node c) (port c))))"

text \<open>The \<^verbatim>\<open>data\<close> listener. \<^verbatim>\<open>send\<close> is called without a callback: on a connecting
  WebSocket its exception leaves the listener, on a closing one the frame is dropped.\<close>

definition tcp_on_data :: "client \<Rightarrow> nat \<Rightarrow> buffer \<Rightarrow> client" where
  "tcp_on_data c sid data =
     (let msg = Tcp_data (tcp_socks c ! sid) (Base64 data) in
      case ws c of
        None \<Rightarrow> c
      | Some w \<Rightarrow>
          if closed c then c
          else (case ws_send c w of
                  Sent \<Rightarrow> emit (WsSend w msg) c
                | SendThrows e \<Rightarrow> emit (Uncaught (ThrownError e)) c
                | SendFails e \<Rightarrow> c))"

definition tcp_on_close :: "client \<Rightarrow> nat \<Rightarrow> client" where
  "tcp_on_close c sid =
     c\<lparr>tcpConnections := AList.delete (tcp_socks c ! sid) (tcpConnections c)\<rparr>"

definition tcp_on_error :: "client \<Rightarrow> nat \<Rightarrow> js_error \<Rightarrow> client" where
  "tcp_on_error c sid err =
     (let c1 = safeOnError c err;
          c2 = emit (SockDestroy sid) c1
      in c2\<lparr>tcpConnections := AList.delete (tcp_socks c2 ! sid) (tcpConnections c2)\<rparr>)"

definition handleTCPData :: "client \<Rightarrow> string \<Rightarrow> base64 \<Rightarrow> client" where
  "handleTCPData c connId dataB64 =
     (case map_of (tcpConnections c) connId of
        None \<Rightarrow> c
      | Some socket \<Rightarrow> emit (SockWrite socket (from_base64 dataB64)) c)"

subsection \<open>handleUDPData\<close>

text \<open>
  \<^verbatim>\<open>socket.close()\<close> on datagram socket \<open>u\<close>, together with the \<^verbatim>\<open>close\<close> listener that
  the call schedules for the next tick, which clears the timer. Node delivers no
  \<^verbatim>\<open>message\<close> to a closed datagram socket.
\<close>

definition dgram_close :: "client \<Rightarrow> nat \<Rightarrow> client" where
  "dgram_close c u =
     (emit (DgramClose u) c)
       \<lparr>dgrams := (dgrams c)[u := (dgrams c ! u)\<lparr>ux_open := False, ux_timer := False\<rparr>]\<rparr>"

text \<open>The socket is made, the listeners are attached and the timer is set before
  \<^verbatim>\<open>socket.send\<close> is called, which throws on a port outside 1..65535: the second
  component is that exception.\<close>

definition handleUDPData :: "client \<Rightarrow> string \<Rightarrow> base64 \<Rightarrow> client \<times> js_error option" where
  "handleUDPData c packetId dataB64 =
     (let socket = length (dgrams c);
          data = from_base64 dataB64;
          c1 = emit (DgramCreate socket) c;
          c2 = c1\<lparr>dgrams := dgrams c1 @
                 [\<lparr>ux_packetId = packetId, ux_open = True, ux_timer = True\<rparr>]\<rparr>
      in if 0 < port c2 \<and> port c2 < 65536
         then (emit (DgramSend socket data (port c2)) c2, None)
         else (c2, Some (dgram_bad_port (node c2) (port c2))))"

text \<open>The \<^verbatim>\<open>message\<close> listener. When \<^verbatim>\<open>send\<close> throws (the WebSocket that the client
  holds is still connecting), the exception leaves the listener and \<^verbatim>\<open>socket.close()\<close>
  is not reached.\<close>

definition udp_on_message :: "client \<Rightarrow> nat \<Rightarrow> buffer \<Rightarrow> client" where
  "udp_on_message c u respData =
     (let respMsg = Udp_response (ux_packetId (dgrams c ! u)) (Base64 respData) in
      case ws c of
        None \<Rightarrow> dgram_close c u
      | Some w \<Rightarrow>
          if closed c then dgram_close c u
          else (case ws_send c w of
                  Sent \<Rightarrow> dgram_close (emit (WsSend w respMsg) c) u
                | SendThrows e \<Rightarrow> emit (Uncaught (ThrownError e)) c
                | SendFails e \<Rightarrow> dgram_close c u))"

definition udp_on_error :: "client \<Rightarrow> nat \<Rightarrow> js_error \<Rightarrow> client" where
  "udp_on_error c u err = dgram_close (safeOnError c err) u"

definition udp_on_timeout :: "client \<Rightarrow> nat \<Rightarrow> client" where
  "udp_on_timeout c u = dgram_close c u"

subsection \<open>handleMessage\<close>

text \<open>The \<^verbatim>\<open>catch\<close> block of \<^verbatim>\<open>handleMessage\<close>, for a handler that may have thrown.\<close>

definition handleMessage_catch :: "client \<times> js_error option \<Rightarrow> client" where
  "handleMessage_catch r =
     (case snd r of
        None \<Rightarrow> fst r
      | Some e \<Rightarrow> emit (LogError (Failed_to_parse (ThrownError e))) (fst r))"

text \<open>\<open>rawData\<close> is the text received, given by what \<^verbatim>\<open>JSON.parse\<close> and the reading of
  the \<^verbatim>\<open>type\<close> field make of it: \<open>Inl\<close> the exception thrown (the text is not JSON, or
  it is \<^verbatim>\<open>null\<close>), \<open>Inr\<close> the message. The \<^verbatim>\<open>switch\<close> has no default branch.\<close>

definition handleMessage :: "client \<Rightarrow> thrown + in_frame \<Rightarrow> client" where
  "handleMessage c rawData =
     (case rawData of
        Inl err \<Rightarrow> emit (LogError (Failed_to_parse err)) c
      | Inr data \<Rightarrow>
          (case data of
             Tunnel_opened url \<Rightarrow>
               (case onOpen c of
                  None \<Rightarrow> c
                | Some f \<Rightarrow> safeCallback (emit (CallOnOpen url) c) (f url))
           | Tcp_connection connectionId \<Rightarrow>
               handleMessage_catch (handleTCPConnection c connectionId)
           | Tcp_data_in connectionId d \<Rightarrow> handleTCPData c connectionId d
           | Udp_data packetId d \<Rightarrow> handleMessage_catch (handleUDPData c packetId d)
           | Request m \<Rightarrow>
               handleRequest c
                 \<lparr>req_id = rm_requestId m,
                  req_method = rm_method m,
                  req_path = rm_path m,
                  req_headers = (case rm_headers m of None \<Rightarrow> [] | Some h \<Rightarrow> h),
                  req_body = (case rm_body m of
                                None \<Rightarrow> None
                              | Some b \<Rightarrow> if b = [] then None else Some b)\<rparr>
           | Error_frame msg \<Rightarrow> safeOnError c (JsError ''Error'' msg)
           | Unrecognised t \<Rightarrow> c))"

subsection \<open>connect, connectOnce, close\<close>

definition upd_socket :: "client \<Rightarrow> nat \<Rightarrow> (websocket \<Rightarrow> websocket) \<Rightarrow> client" where
  "upd_socket c w f = c\<lparr>sockets := (sockets c)[w := f (sockets c ! w)]\<rparr>"

text \<open>The synchronous part of \<^verbatim>\<open>connectOnce\<close>: WebSocket object \<open>length (sockets c)\<close> is
  made, and the four callbacks below are attached to it.\<close>

definition connectOnce :: "client \<Rightarrow> client" where
  "connectOnce c =
     (let w = length (sockets c);
          c1 = emit (NewWebSocket w (serverUrl c)) c
      in c1\<lparr>sockets := sockets c1 @
               [\<lparr>readyState = CONNECTING, lifecycle = Pending,
                 close_listener = False, pingInterval = False\<rparr>],
            ws := Some w,
            closed := False\<rparr>)"

text \<open>The head of the \<^verbatim>\<open>while\<close> loop of \<^verbatim>\<open>connect\<close>, up to the \<^verbatim>\<open>await\<close>.\<close>

definition connect_loop :: "client \<Rightarrow> client" where
  "connect_loop c =
     (if \<not> closed c
      then (connectOnce c)\<lparr>loop := Awaiting (length (sockets c))\<rparr>
      else c\<lparr>loop := Exited\<rparr>)"

definition connect :: "client \<Rightarrow> client" where
  "connect c = connect_loop (c\<lparr>backoff := 1000\<rparr>)"

text \<open>After \<^verbatim>\<open>await this.connectOnce()\<close> has returned.\<close>

definition connect_resolved :: "client \<Rightarrow> client" where
  "connect_resolved c = connect_loop (c\<lparr>backoff := 1000\<rparr>)"

text \<open>The \<^verbatim>\<open>catch\<close> block, up to \<^verbatim>\<open>await this.sleep(backoff)\<close>.\<close>

definition connect_catch :: "client \<Rightarrow> thrown \<Rightarrow> client" where
  "connect_catch c err =
     (let error = as_Error err;
          c1 = emit (LogWarn (Connection_error (message error) (backoff c))) c;
          c2 = safeOnError c1 error
      in (emit (Sleep (backoff c2)) c2)\<lparr>loop := Sleeping\<rparr>)"

text \<open>The rest of the \<^verbatim>\<open>catch\<close> block, once the sleep is over, and the next iteration.\<close>

definition connect_after_sleep :: "client \<Rightarrow> client" where
  "connect_after_sleep c =
     connect_loop (c\<lparr>backoff := min (backoff c * 2) maxBackoff\<rparr>)"

text \<open>\<^verbatim>\<open>resolve()\<close> and \<^verbatim>\<open>reject(err)\<close> of the promise of \<^verbatim>\<open>connectOnce\<close> for WebSocket
  \<open>w\<close>: the first of them settles it and resumes \<^verbatim>\<open>connect\<close>.\<close>

definition lifecycle_resolve :: "client \<Rightarrow> nat \<Rightarrow> client" where
  "lifecycle_resolve c w =
     (if lifecycle (sockets c ! w) = Pending
      then connect_resolved (upd_socket c w (\<lambda>s. s\<lparr>lifecycle := Fulfilled\<rparr>))
      else c)"

definition lifecycle_reject :: "client \<Rightarrow> nat \<Rightarrow> thrown \<Rightarrow> client" where
  "lifecycle_reject c w err =
     (if lifecycle (sockets c ! w) = Pending
      then connect_catch (upd_socket c w (\<lambda>s. s\<lparr>lifecycle := Rejected err\<rparr>)) err
      else c)"

text \<open>The \<^verbatim>\<open>open\<close> callback. The handshake is sent with \<^verbatim>\<open>ws.send\<close> on the WebSocket of
  this attempt, whatever \<^verbatim>\<open>this.ws\<close> and \<^verbatim>\<open>this.closed\<close> are.\<close>

definition ws_on_open :: "client \<Rightarrow> nat \<Rightarrow> client" where
  "ws_on_open c w =
     (let handshake = Open_tunnel (apiKey c) (protocol c) (remotePort c) in
      case ws_send c w of
        SendThrows e \<Rightarrow> emit (Uncaught (ThrownError e)) c
      | Sent \<Rightarrow>
          upd_socket (emit (WsSend w handshake) c) w
            (\<lambda>s. s\<lparr>pingInterval := True, close_listener := True\<rparr>)
      | SendFails e \<Rightarrow>
          upd_socket c w (\<lambda>s. s\<lparr>pingInterval := True, close_listener := True\<rparr>))"

definition ws_on_ping_interval :: "client \<Rightarrow> nat \<Rightarrow> client" where
  "ws_on_ping_interval c w =
     (if readyState (sockets c ! w) = OPEN then emit (WsPing w) c else c)"

definition ws_on_message :: "client \<Rightarrow> nat \<Rightarrow> thrown + in_frame \<Rightarrow> client" where
  "ws_on_message c w data = handleMessage c data"

definition ws_on_error :: "client \<Rightarrow> nat \<Rightarrow> thrown \<Rightarrow> client" where
  "ws_on_error c w err = lifecycle_reject c w err"

text \<open>The two \<^verbatim>\<open>close\<close> listeners, in the order they were added: the one of line 121
  first, then the one the \<^verbatim>\<open>open\<close> callback added, if it ran.\<close>

definition ws_on_close :: "client \<Rightarrow> nat \<Rightarrow> client" where
  "ws_on_close c w =
     (let c1 = c\<lparr>ws := None\<rparr> in
      if close_listener (sockets c1 ! w)
      then lifecycle_resolve (upd_socket c1 w (\<lambda>s. s\<lparr>pingInterval := False\<rparr>)) w
      else c1)"

text \<open>\<^verbatim>\<open>ws.close()\<close> of the transport library: a socket that is connecting or open starts
  closing (a connecting one never opens), any other is left as it is.\<close>

definition ws_close_call :: "client \<Rightarrow> nat \<Rightarrow> client" where
  "ws_close_call c w =
     upd_socket (emit (WsCloseCall w) c) w
       (\<lambda>s. if readyState s = CONNECTING \<or> readyState s = OPEN
            then s\<lparr>readyState := CLOSING\<rparr> else s)"

definition close :: "client \<Rightarrow> client" where
  "close c =
     (let c1 = c\<lparr>closed := True\<rparr>;
          c2 = fold (\<lambda>socket. emit (SockDestroy socket)) (map snd (tcpConnections c1)) c1;
          c3 = c2\<lparr>tcpConnections := []\<rparr>
      in case ws c3 of
           None \<Rightarrow> c3
         | Some w \<Rightarrow> (ws_close_call c3 w)\<lparr>ws := None\<rparr>)"

section \<open>Events\<close>

text \<open>
  What can happen to a client: the application calls \<^verbatim>\<open>connect()\<close> or \<^verbatim>\<open>close()\<close>, or
  one of the registered callbacks fires. The settling of a promise is taken together with
  the continuation that awaits it.
\<close>

datatype event =
    CallConnect
  | CallClose
  | WsOpen nat
  | WsMessage nat "thrown + in_frame"
  | WsError nat thrown
  | WsClosed nat
  | PingTimer nat
  | SleepOver
  | SockData nat buffer
  | SockClosed nat
  | SockError nat js_error
  | DgramMessage nat buffer
  | DgramError nat js_error
  | DgramTimeout nat
  | HandlerSettled nat
  | ProxyEnd nat upstream_response
  | ProxyError nat js_error
  | ProxyTimeout nat
  | SendDone nat "thrown option"

text \<open>
  When the environment can produce an event. A WebSocket opens only while it is
  connecting, delivers messages while it is open or closing, and emits \<^verbatim>\<open>close\<close> once; a
  timer fires only while it is set; a datagram socket delivers only while it is open; a
  suspended invocation resumes only where it is suspended. \<^verbatim>\<open>connect()\<close> is called while
  no loop is running.
\<close>

fun enabled :: "client \<Rightarrow> event \<Rightarrow> bool" where
  "enabled c CallConnect = (loop c = Idle \<or> loop c = Exited)"
| "enabled c CallClose = True"
| "enabled c (WsOpen w) =
     (w < length (sockets c) \<and> readyState (sockets c ! w) = CONNECTING)"
| "enabled c (WsMessage w d) =
     (w < length (sockets c) \<and>
      (readyState (sockets c ! w) = OPEN \<or> readyState (sockets c ! w) = CLOSING))"
| "enabled c (WsError w err) =
     (w < length (sockets c) \<and> readyState (sockets c ! w) \<noteq> CLOSED)"
| "enabled c (WsClosed w) =
     (w < length (sockets c) \<and> readyState (sockets c ! w) \<noteq> CLOSED)"
| "enabled c (PingTimer w) =
     (w < length (sockets c) \<and> pingInterval (sockets c ! w))"
| "enabled c SleepOver = (loop c = Sleeping)"
| "enabled c (SockData sid d) = (sid < length (tcp_socks c))"
| "enabled c (SockClosed sid) = (sid < length (tcp_socks c))"
| "enabled c (SockError sid err) = (sid < length (tcp_socks c))"
| "enabled c (DgramMessage u d) = (u < length (dgrams c) \<and> ux_open (dgrams c ! u))"
| "enabled c (DgramError u err) = (u < length (dgrams c) \<and> ux_open (dgrams c ! u))"
| "enabled c (DgramTimeout u) = (u < length (dgrams c) \<and> ux_timer (dgrams c ! u))"
| "enabled c (HandlerSettled k) =
     (k < length (invocations c) \<and>
      (case inv_at (invocations c ! k) of AwaitHandler r \<Rightarrow> True | _ \<Rightarrow> False))"
| "enabled c (ProxyEnd k res) =
     (k < length (invocations c) \<and> inv_proxied (invocations c ! k))"
| "enabled c (ProxyError k err) =
     (k < length (invocations c) \<and> inv_proxied (invocations c ! k))"
| "enabled c (ProxyTimeout k) =
     (k < length (invocations c) \<and> inv_proxied (invocations c ! k))"
| "enabled c (SendDone k err) =
     (k < length (invocations c) \<and> inv_at (invocations c ! k) = AwaitSend)"

text \<open>The callback an event runs. The transport library moves the \<^verbatim>\<open>readyState\<close> before
  it emits \<^verbatim>\<open>open\<close>, \<^verbatim>\<open>error\<close> and \<^verbatim>\<open>close\<close>.\<close>

fun fire :: "client \<Rightarrow> event \<Rightarrow> client" where
  "fire c CallConnect = connect c"
| "fire c CallClose = close c"
| "fire c (WsOpen w) =
     ws_on_open (upd_socket c w (\<lambda>s. s\<lparr>readyState := OPEN\<rparr>)) w"
| "fire c (WsMessage w d) = ws_on_message c w d"
| "fire c (WsError w err) =
     ws_on_error (upd_socket c w (\<lambda>s. s\<lparr>readyState := CLOSING\<rparr>)) w err"
| "fire c (WsClosed w) =
     ws_on_close (upd_socket c w (\<lambda>s. s\<lparr>readyState := CLOSED\<rparr>)) w"
| "fire c (PingTimer w) = ws_on_ping_interval c w"
| "fire c SleepOver = connect_after_sleep c"
| "fire c (SockData sid d) = tcp_on_data c sid d"
| "fire c (SockClosed sid) = tcp_on_close c sid"
| "fire c (SockError sid err) = tcp_on_error c sid err"
| "fire c (DgramMessage u d) = udp_on_message c u d"
| "fire c (DgramError u err) = udp_on_error c u err"
| "fire c (DgramTimeout u) = udp_on_timeout c u"
| "fire c (HandlerSettled k) =
     (case inv_at (invocations c ! k) of
        AwaitHandler r \<Rightarrow> handleRequest_resume c k (inv_req (invocations c ! k)) r
      | _ \<Rightarrow> c)"
| "fire c (ProxyEnd k res) = proxy_on_end c k res"
| "fire c (ProxyError k err) = proxy_on_error c k err"
| "fire c (ProxyTimeout k) = proxy_on_timeout c k"
| "fire c (SendDone k err) = send_callback c k err"

definition step :: "client \<Rightarrow> event \<Rightarrow> client" where
  "step c e = (if enabled c e then fire c e else c)"

fun run :: "client \<Rightarrow> event list \<Rightarrow> client" where
  "run c [] = c"
| "run c (e # es) = run (step c e) es"

text \<open>An event list in which every event can happen when its turn comes.\<close>

fun feasible :: "client \<Rightarrow> event list \<Rightarrow> bool" where
  "feasible c [] = True"
| "feasible c (e # es) = (enabled c e \<and> feasible (fire c e) es)"

subsection \<open>Reading the trace\<close>

fun is_frame :: "effect \<Rightarrow> bool" where
  "is_frame (WsSend w f) = True"
| "is_frame e = False"

fun is_response_for :: "string \<Rightarrow> effect \<Rightarrow> bool" where
  "is_response_for rid (WsSend w (Response rid' st hs b)) = (rid' = rid)"
| "is_response_for rid e = False"

fun is_udp_response_for :: "string \<Rightarrow> effect \<Rightarrow> bool" where
  "is_udp_response_for pid (WsSend w (Udp_response pid' d)) = (pid' = pid)"
| "is_udp_response_for pid e = False"

definition responses_for :: "string \<Rightarrow> client \<Rightarrow> effect list" where
  "responses_for rid c = filter (is_response_for rid) (trace c)"

definition frames :: "client \<Rightarrow> effect list" where
  "frames c = filter is_frame (trace c)"

fun is_log :: "effect \<Rightarrow> bool" where
  "is_log (LogWarn l) = True"
| "is_log (LogError l) = True"
| "is_log e = False"

fun is_sleep :: "effect \<Rightarrow> bool" where
  "is_sleep (Sleep n) = True"
| "is_sleep e = False"

fun is_new_socket :: "effect \<Rightarrow> bool" where
  "is_new_socket (NewWebSocket w url) = True"
| "is_new_socket e = False"

fun is_ping :: "effect \<Rightarrow> bool" where
  "is_ping (WsPing w) = True"
| "is_ping e = False"

fun is_http_request :: "effect \<Rightarrow> bool" where
  "is_http_request (HttpRequest k options b) = True"
| "is_http_request e = False"

text \<open>What \<^verbatim>\<open>safeOnError(err)\<close> adds to the trace.\<close>

definition error_report :: "client \<Rightarrow> js_error \<Rightarrow> effect list" where
  "error_report c err =
     (case onError c of
        None \<Rightarrow> []
      | Some f \<Rightarrow> CallOnError err #
          (case f err of
             Returns u \<Rightarrow> []
           | Throws t \<Rightarrow> [LogError (Callback_error t)]
           | Rejects t \<Rightarrow> [UnhandledRejection t]))"

text \<open>An invocation that has not yet reached \<^verbatim>\<open>sendResponse\<close>.\<close>

fun waiting :: "await_point \<Rightarrow> bool" where
  "waiting (AwaitHandler r) = True"
| "waiting AwaitProxy = True"
| "waiting AwaitSend = False"
| "waiting Finished = False"

text \<open>For a request id: the response frames sent, the invocations of \<^verbatim>\<open>handleRequest\<close>
  made for it, and those of them that are still waiting for their response.\<close>

definition n_responses :: "string \<Rightarrow> client \<Rightarrow> nat" where
  "n_responses rid c = length (filter (is_response_for rid) (trace c))"

definition n_requests :: "string \<Rightarrow> client \<Rightarrow> nat" where
  "n_requests rid c = length (filter (\<lambda>i. req_id (inv_req i) = rid) (invocations c))"

definition n_waiting :: "string \<Rightarrow> client \<Rightarrow> nat" where
  "n_waiting rid c =
     length (filter (\<lambda>i. req_id (inv_req i) = rid \<and> waiting (inv_at i)) (invocations c))"

text \<open>For a packet id: the \<^verbatim>\<open>udp_response\<close> frames sent, the datagram exchanges started
  for it, and those of them whose socket is still open.\<close>

definition n_udp_responses :: "string \<Rightarrow> client \<Rightarrow> nat" where
  "n_udp_responses pid c = length (filter (is_udp_response_for pid) (trace c))"

definition n_exchanges :: "string \<Rightarrow> client \<Rightarrow> nat" where
  "n_exchanges pid c = length (filter (\<lambda>u. ux_packetId u = pid) (dgrams c))"

definition n_open_exchanges :: "string \<Rightarrow> client \<Rightarrow> nat" where
  "n_open_exchanges pid c =
     length (filter (\<lambda>u. ux_packetId u = pid \<and> ux_open u) (dgrams c))"

text \<open>No WebSocket is connecting or open, and the client is closed and holds none.\<close>

definition quiescent :: "client \<Rightarrow> bool" where
  "quiescent c =
     (closed c \<and> ws c = None \<and>
      list_all (\<lambda>s. readyState s = CLOSING \<or> readyState s = CLOSED) (sockets c))"

text \<open>Every WebSocket that is still connecting or open is the one the client holds in
  \<^verbatim>\<open>this.ws\<close>.\<close>

definition no_stray_socket :: "client \<Rightarrow> bool" where
  "no_stray_socket c =
     list_all (\<lambda>w. ws c = Some w \<or> readyState (sockets c ! w) = CLOSING \<or>
                   readyState (sockets c ! w) = CLOSED) [0..<length (sockets c)]"

text \<open>
  The three ways a guarded send can go. \<open>can_send\<close>: the guard \<^verbatim>\<open>this.ws && !this.closed\<close>
  holds and the WebSocket held is open, so the frame is accepted. \<open>send_throws\<close>: the guard
  holds and the WebSocket held is still connecting, so \<^verbatim>\<open>send\<close> throws. Otherwise nothing
  is sent and nothing is thrown outside a promise; \<open>send_refusal\<close> is then what
  \<^verbatim>\<open>sendResponse\<close> rejects with.
\<close>

definition can_send :: "client \<Rightarrow> bool" where
  "can_send c =
     (case ws c of
        None \<Rightarrow> False
      | Some w \<Rightarrow> \<not> closed c \<and> readyState (sockets c ! w) = OPEN)"

definition send_throws :: "client \<Rightarrow> bool" where
  "send_throws c =
     (case ws c of
        None \<Rightarrow> False
      | Some w \<Rightarrow> \<not> closed c \<and> readyState (sockets c ! w) = CONNECTING)"

definition send_refusal :: "client \<Rightarrow> thrown" where
  "send_refusal c =
     (case ws c of
        None \<Rightarrow> ThrownError (JsError ''Error'' ''Client is closed'')
      | Some w \<Rightarrow>
          if closed c then ThrownError (JsError ''Error'' ''Client is closed'')
          else ThrownError (ws_not_open (node c) (readyState (sockets c ! w))))"

text \<open>From \<open>c\<close> to \<open>c'\<close>, the responses sent and the invocations still waiting have
  not grown by more than the requests received; and the same for datagram exchanges.\<close>

definition counts_ok :: "string \<Rightarrow> client \<Rightarrow> client \<Rightarrow> bool" where
  "counts_ok rid c c' =
     (n_responses rid c' + n_waiting rid c' + n_requests rid c \<le>
      n_responses rid c + n_waiting rid c + n_requests rid c')"

definition udp_ok :: "string \<Rightarrow> client \<Rightarrow> client \<Rightarrow> bool" where
  "udp_ok pid c c' =
     (n_udp_responses pid c' + n_open_exchanges pid c' + n_exchanges pid c \<le>
      n_udp_responses pid c + n_open_exchanges pid c + n_exchanges pid c')"

subsection \<open>Concrete clients and messages\<close>

text \<open>Libraries in which \<^verbatim>\<open>http.request\<close> refuses a path that holds a space, and accepts
  every other request.\<close>

definition example_node :: node_lib where
  "example_node =
     \<lparr>http_request_throws =
        (\<lambda>options. if CHR '' '' \<in> set (ro_path options)
                    then Some (JsError ''TypeError'' ''Request path contains unescaped characters'')
                    else None),
      net_bad_port = (\<lambda>p. JsError ''RangeError'' ''Port should be >= 0 and < 65536''),
      dgram_bad_port = (\<lambda>p. JsError ''RangeError'' ''Port should be > 0 and < 65536''),
      ws_not_open = (\<lambda>s. JsError ''Error'' ''WebSocket is not open'')\<rparr>"

definition example_handler :: "incoming_request \<Rightarrow> incoming_response outcome" where
  "example_handler req =
     Returns \<lparr>statusCode = 200, resp_headers = None, resp_body = Some (StringBody ''ok'')\<rparr>"

definition failing_handler :: "incoming_request \<Rightarrow> incoming_response outcome" where
  "failing_handler req = Throws (ThrownValue ''boom'')"

definition failing_callback :: "'a \<Rightarrow> unit outcome" where
  "failing_callback x = Throws (ThrownError (JsError ''TypeError'' ''bad''))"

text \<open>An \<^verbatim>\<open>async\<close> callback whose body throws.\<close>

definition async_failing_callback :: "'a \<Rightarrow> unit outcome" where
  "async_failing_callback x = Rejects (ThrownError (JsError ''TypeError'' ''bad''))"

definition quiet_callback :: "'a \<Rightarrow> unit outcome" where
  "quiet_callback x = Returns ()"

definition example_options :: client_options where
  "example_options =
     \<lparr>opt_serverUrl = None, opt_apiKey = ''key'', opt_protocol = None, opt_port = 8080,
      opt_remotePort = None, opt_onOpen = None, opt_onRequest = None, opt_onError = None\<rparr>"

definition example_message :: request_message where
  "example_message =
     \<lparr>rm_requestId = ''r1'', rm_method = ''GET'', rm_path = ''/x'', rm_headers = None,
      rm_body = None\<rparr>"

definition example_request :: incoming_request where
  "example_request =
     \<lparr>req_id = ''r1'', req_method = ''GET'', req_path = ''/x'', req_headers = [],
      req_body = None\<rparr>"

text \<open>A client whose first WebSocket has opened.\<close>

definition example_client :: client where
  "example_client = run (Client_new example_node example_options) [CallConnect, WsOpen 0]"

definition udp_options :: client_options where
  "udp_options = example_options\<lparr>opt_protocol := Some Udp, opt_port := 5353\<rparr>"

text \<open>The first WebSocket opens and fails, the loop sleeps and makes a second one, and only
  then the first one emits \<^verbatim>\<open>close\<close>.\<close>

definition late_close_events :: "event list" where
  "late_close_events =
     [CallConnect, WsOpen 0, WsError 0 (ThrownError (JsError ''Error'' ''Invalid frame'')),
      SleepOver, WsClosed 0]"

text \<open>The first attempt fails before it opens; the second opens and then fails.\<close>

definition two_failures :: "event list" where
  "two_failures =
     [CallConnect, WsError 0 (ThrownError (JsError ''Error'' ''ECONNREFUSED'')), WsClosed 0,
      SleepOver, WsOpen 1, WsError 1 (ThrownError (JsError ''Error'' ''Invalid frame'')),
      WsClosed 1]"

section \<open>Properties\<close>

lemmas client_defs =
  emit_def maxBackoff_def Client_new_def safeCallback_def safeOnError_def ws_send_def
  response_frame_def sendResponse_def set_await_def handleRequest_catch_def
  handleRequest_resume_def send_callback_def proxy_options_def proxyHTTP_def
  proxy_resolve_def proxy_on_end_def proxy_on_error_def proxy_on_timeout_def
  new_invocation_def handleRequest_def handleTCPConnection_def tcp_on_data_def
  tcp_on_close_def tcp_on_error_def handleTCPData_def dgram_close_def handleUDPData_def
  udp_on_message_def udp_on_error_def udp_on_timeout_def handleMessage_catch_def
  handleMessage_def upd_socket_def connectOnce_def connect_loop_def connect_def
  connect_resolved_def connect_catch_def connect_after_sleep_def lifecycle_resolve_def
  lifecycle_reject_def ws_on_open_def ws_on_ping_interval_def ws_on_message_def
  ws_on_error_def ws_on_close_def ws_close_call_def close_def step_def

lemmas example_defs =
  example_node_def example_handler_def failing_handler_def failing_callback_def
  async_failing_callback_def quiet_callback_def example_options_def example_message_def
  example_request_def example_client_def udp_options_def late_close_events_def
  two_failures_def


subsection \<open>Dispatch of an http request\<close>



subsection \<open>Exceptions of the application's code\<close>

text \<open>
  C6. When the user's request handler throws (or the promise it returned rejects), the
  invocation logs the error, passes it to the error callback (when one is configured),
  sends no frame and leaves the channel, the closed flag, the reconnect loop and the
  WebSocket objects as they were.
\<close>

theorem handler_exception_caught:
  "(onRequest c = Some h \<and> failure (h req) = Some err \<longrightarrow>
      handleRequest c req =
        new_invocation (emit (CallOnRequest req) c) req (AwaitHandler (h req)) False) \<and>
   (k < length (invocations c) \<and> inv_at (invocations c ! k) = AwaitHandler r \<and>
    failure r = Some err \<longrightarrow>
      trace (step c (HandlerSettled k)) =
        trace c @ LogError (Error_handling_request (message (as_Error err))) #
          (case onError c of
             None \<Rightarrow> []
           | Some f \<Rightarrow> CallOnError (as_Error err) #
               (case f (as_Error err) of
                  Returns u \<Rightarrow> []
                | Throws t \<Rightarrow> [LogError (Callback_error t)]
                | Rejects t \<Rightarrow> [UnhandledRejection t])) \<and>
      frames (step c (HandlerSettled k)) = frames c \<and>
      ws (step c (HandlerSettled k)) = ws c \<and>
      closed (step c (HandlerSettled k)) = closed c \<and>
      loop (step c (HandlerSettled k)) = loop c \<and>
      sockets (step c (HandlerSettled k)) = sockets c \<and>
      inv_at (invocations (step c (HandlerSettled k)) ! k) = Finished)"
  by (cases r)
     (simp_all add: handleRequest_def new_invocation_def emit_def step_def frames_def
        handleRequest_resume_def handleRequest_catch_def safeOnError_def safeCallback_def
        set_await_def Let_def split: option.split outcome.split)

theorem handler_exception_caught_witness:
  "trace (run (example_client\<lparr>onRequest := Some failing_handler,
                               onError := Some quiet_callback\<rparr>)
            [WsMessage 0 (Inr (Request example_message)), HandlerSettled 0]) =
     trace example_client @
       [CallOnRequest example_request, LogError (Error_handling_request ''boom''),
        CallOnError (JsError ''Error'' ''boom'')]"
  using handler_exception_caught
          [of "example_client\<lparr>onRequest := Some failing_handler,
                                onError := Some quiet_callback\<rparr>"
              failing_handler example_request "ThrownValue ''boom''" 0
              "Throws (ThrownValue ''boom'')"]
        handler_exception_caught
          [of "handleRequest
                 (example_client\<lparr>onRequest := Some failing_handler,
                                  onError := Some quiet_callback\<rparr>)
                 example_request"
              failing_handler example_request "ThrownValue ''boom''" 0
              "Throws (ThrownValue ''boom'')"]
  by (simp add: client_defs example_defs)

text \<open>
  An exception that the \<^verbatim>\<open>onOpen\<close> or the \<^verbatim>\<open>onError\<close> callback throws while it is called
  is caught and logged: the dispatch of a \<^verbatim>\<open>tunnel_opened\<close> or an \<^verbatim>\<open>error\<close> message and
  the call of \<^verbatim>\<open>safeOnError\<close> end normally with the log line added, and the reconnect loop
  goes on to its sleep after an error callback that threw.
\<close>

lemma callback_exceptions_caught:
  "(onOpen c = Some f \<and> f url = Throws t \<longrightarrow>
      handleMessage c (Inr (Tunnel_opened url)) =
        emit (LogError (Callback_error t)) (emit (CallOnOpen url) c)) \<and>
   (onError c = Some g \<and> g err = Throws t \<longrightarrow>
      safeOnError c err =
        emit (LogError (Callback_error t)) (emit (CallOnError err) c)) \<and>
   (onError c = Some g \<and> g (JsError ''Error'' msg) = Throws t \<longrightarrow>
      handleMessage c (Inr (Error_frame msg)) =
        emit (LogError (Callback_error t))
          (emit (CallOnError (JsError ''Error'' msg)) c)) \<and>
   (onError c = Some g \<and> g (as_Error e) = Throws t \<longrightarrow>
      trace (connect_catch c e) =
        trace c @ [LogWarn (Connection_error (message (as_Error e)) (backoff c)),
                   CallOnError (as_Error e), LogError (Callback_error t),
                   Sleep (backoff c)])"
  by (simp add: handleMessage_def safeOnError_def safeCallback_def connect_catch_def emit_def
      Let_def)

text \<open>
  C10: the code breaks the claim, and the comment of \<^verbatim>\<open>safeCallback\<close> (``catching any
  exceptions''). The \<^verbatim>\<open>try\<close> block of \<^verbatim>\<open>safeCallback\<close> covers the call only. An
  \<^verbatim>\<open>async\<close> callback whose body throws returns a promise that rejects; \<^verbatim>\<open>safeCallback\<close>
  neither awaits it nor attaches a handler to it. Here an \<^verbatim>\<open>error\<close> message and a
  \<^verbatim>\<open>tunnel_opened\<close> message arrive at a client whose two callbacks are such functions: the
  two rejections go unhandled, and nothing is logged.
\<close>

theorem async_callback_unhandled:
  "trace (run (example_client\<lparr>onOpen := Some async_failing_callback,
                               onError := Some async_failing_callback\<rparr>)
            [WsMessage 0 (Inr (Error_frame ''denied'')),
             WsMessage 0 (Inr (Tunnel_opened ''https://t.example''))]) =
     trace example_client @
       [CallOnError (JsError ''Error'' ''denied''),
        UnhandledRejection (ThrownError (JsError ''TypeError'' ''bad'')),
        CallOnOpen ''https://t.example'',
        UnhandledRejection (ThrownError (JsError ''TypeError'' ''bad''))] \<and>
   filter is_log
     (trace (run (example_client\<lparr>onOpen := Some async_failing_callback,
                                  onError := Some async_failing_callback\<rparr>)
               [WsMessage 0 (Inr (Error_frame ''denied'')),
                WsMessage 0 (Inr (Tunnel_opened ''https://t.example''))])) = []"
  by (simp add: client_defs example_defs)

subsection \<open>Malformed and unrecognised messages\<close>

text \<open>
  C9, as the claim states it, fails: a message whose kind is none of the six the client
  knows is dropped without a log line. After the handshake and one such message the trace
  holds no log line at all.
\<close>

theorem unknown_kind_not_logged:
  "filter is_log
     (trace (run (Client_new example_node example_options)
               [CallConnect, WsOpen 0, WsMessage 0 (Inr (Unrecognised ''bogus''))])) = []"
  by (simp add: client_defs example_defs)

text \<open>
  C9, amended. A message that \<^verbatim>\<open>JSON.parse\<close> rejects is logged and dropped: the log line is
  all the client does, and no frame is sent. A message of an unrecognised kind is dropped
  silently: the client is left exactly as it was. In both cases the events that follow
  are processed as usual.
\<close>

theorem malformed_frames_dropped:
  "handleMessage c (Inl err) = emit (LogError (Failed_to_parse err)) c \<and>
   frames (handleMessage c (Inl err)) = frames c \<and>
   handleMessage c (Inr (Unrecognised t)) = c \<and>
   run c (WsMessage w (Inr (Unrecognised t)) # evs) = run c evs \<and>
   run c (WsMessage w (Inl err) # evs) =
     run (if enabled c (WsMessage w (Inl err))
          then emit (LogError (Failed_to_parse err)) c else c) evs"
  by (auto simp: handleMessage_def emit_def frames_def step_def ws_on_message_def)


section \<open>The client as a whole\<close>

subsection \<open>What each callback changes\<close>

lemma nth_update_any:
  "(xs[i := x]) ! j = (if i = j \<and> i < length xs then x else xs ! j)"
  by (cases "i < length xs") (simp_all add: nth_list_update list_update_beyond)

lemma length_filter_list_update:
  "k < length xs \<Longrightarrow>
   length (filter P (xs[k := y])) + (if P (xs ! k) then 1 else 0) =
   length (filter P xs) + (if P y then 1 else 0)"
proof (induction xs arbitrary: k)
  case Nil
  then show ?case by simp
next
  case (Cons x xs)
  show ?case
  proof (cases k)
    case 0
    then show ?thesis by simp
  next
    case (Suc j)
    with Cons.prems have "j < length xs" by simp
    from Cons.IH [OF this] Suc show ?thesis by simp
  qed
qed

lemma list_all_update:
  "list_all P xs \<Longrightarrow> P x \<Longrightarrow> list_all P (xs[i := x])"
  by (induction xs arbitrary: i) (auto split: nat.split)

lemma list_all_nth: "list_all P xs \<Longrightarrow> i < length xs \<Longrightarrow> P (xs ! i)"
  by (simp add: list_all_length)

lemma fold_destroy:
  "fold (\<lambda>socket. emit (SockDestroy socket)) xs c = c\<lparr>trace := trace c @ map SockDestroy xs\<rparr>"
  by (induction xs arbitrary: c) (simp_all add: emit_def)

lemma safeCallback_nf:
  "safeCallback c fn =
     c\<lparr>trace := trace c @
          (case fn of
             Returns u \<Rightarrow> []
           | Throws t \<Rightarrow> [LogError (Callback_error t)]
           | Rejects t \<Rightarrow> [UnhandledRejection t])\<rparr>"
  by (simp add: safeCallback_def emit_def split: outcome.split)

lemma safeOnError_nf: "safeOnError c err = c\<lparr>trace := trace c @ error_report c err\<rparr>"
  by (simp add: safeOnError_def safeCallback_def emit_def error_report_def
      split: option.split outcome.split)

lemma error_report_quiet [simp]:
  "filter (is_response_for rid) (error_report c err) = []"
  "filter (is_udp_response_for pid) (error_report c err) = []"
  "filter is_frame (error_report c err) = []"
  "filter is_sleep (error_report c err) = []"
  "filter is_new_socket (error_report c err) = []"
  "filter is_ping (error_report c err) = []"
  by (simp_all add: error_report_def split: option.split outcome.split)

lemma error_report_cong [simp]:
  "error_report (c\<lparr>trace := t\<rparr>) err = error_report c err"
  "error_report (c\<lparr>invocations := i\<rparr>) err = error_report c err"
  by (simp_all add: error_report_def)

lemma handleRequest_catch_nf:
  "handleRequest_catch c k err =
     c\<lparr>trace := trace c @ LogError (Error_handling_request (message (as_Error err))) #
                   error_report c (as_Error err),
       invocations := (invocations c)[k := (invocations c ! k)\<lparr>inv_at := Finished\<rparr>]\<rparr>"
  by (simp add: handleRequest_catch_def safeOnError_nf emit_def set_await_def Let_def
      error_report_def)

lemma handleRequest_resume_nf:
  "handleRequest_resume c k req r =
     (case r of
        Throws err \<Rightarrow> handleRequest_catch c k err
      | Rejects err \<Rightarrow> handleRequest_catch c k err
      | Returns resp \<Rightarrow>
          if can_send c
          then c\<lparr>trace := trace c @
                   [WsSend (the (ws c))
                      (response_frame
                         \<lparr>statusCode = statusCode resp, resp_headers = resp_headers resp,
                          resp_body = resp_body resp, resp_id = req_id req\<rparr>)],
                 invocations := (invocations c)[k := (invocations c ! k)\<lparr>inv_at := AwaitSend\<rparr>]\<rparr>
          else handleRequest_catch c k (send_refusal c))"
  by (simp add: handleRequest_resume_def sendResponse_def ws_send_def emit_def set_await_def
      can_send_def send_refusal_def Let_def
      split: outcome.split option.split ready_state.split)

lemma tcp_on_data_nf:
  "tcp_on_data c sid d =
     (if can_send c
      then emit (WsSend (the (ws c)) (Tcp_data (tcp_socks c ! sid) (Base64 d))) c
      else if send_throws c then emit (Uncaught (send_refusal c)) c
      else c)"
  by (simp add: tcp_on_data_def ws_send_def can_send_def send_throws_def send_refusal_def
      Let_def split: option.split ready_state.split)

lemma udp_on_message_nf:
  "udp_on_message c u d =
     (if can_send c
      then dgram_close
             (emit (WsSend (the (ws c)) (Udp_response (ux_packetId (dgrams c ! u)) (Base64 d)))
                c) u
      else if send_throws c then emit (Uncaught (send_refusal c)) c
      else dgram_close c u)"
  by (simp add: udp_on_message_def ws_send_def can_send_def send_throws_def send_refusal_def
      Let_def split: option.split ready_state.split)

lemma can_send_cong [simp]:
  "can_send (c\<lparr>trace := t\<rparr>) = can_send c"
  "can_send (c\<lparr>invocations := i\<rparr>) = can_send c"
  "can_send (c\<lparr>dgrams := d\<rparr>) = can_send c"
  "send_throws (c\<lparr>trace := t\<rparr>) = send_throws c"
  "send_throws (c\<lparr>invocations := i\<rparr>) = send_throws c"
  "send_throws (c\<lparr>dgrams := d\<rparr>) = send_throws c"
  "send_refusal (c\<lparr>trace := t\<rparr>) = send_refusal c"
  "send_refusal (c\<lparr>invocations := i\<rparr>) = send_refusal c"
  "send_refusal (c\<lparr>dgrams := d\<rparr>) = send_refusal c"
  by (simp_all add: can_send_def send_throws_def send_refusal_def split: option.split)

lemmas handler_nf =
  emit_def maxBackoff_def safeCallback_nf safeOnError_nf handleRequest_catch_nf
  handleRequest_resume_nf set_await_def send_callback_def proxy_options_def proxyHTTP_def
  proxy_resolve_def proxy_on_end_def proxy_on_error_def proxy_on_timeout_def
  new_invocation_def handleRequest_def handleTCPConnection_def tcp_on_data_nf
  tcp_on_close_def tcp_on_error_def handleTCPData_def dgram_close_def handleUDPData_def
  udp_on_message_nf udp_on_error_def udp_on_timeout_def handleMessage_catch_def
  handleMessage_def upd_socket_def connectOnce_def connect_loop_def connect_def
  connect_resolved_def connect_catch_def connect_after_sleep_def lifecycle_resolve_def
  lifecycle_reject_def ws_on_open_def ws_send_def ws_on_ping_interval_def ws_on_message_def
  ws_on_error_def ws_on_close_def ws_close_call_def close_def fold_destroy step_def Let_def

lemmas event_splits =
  option.split sum.split in_frame.split await_point.split outcome.split ready_state.split

subsection \<open>Responses and requests\<close>

lemma counts_ok_same:
  "invocations c' = invocations c \<Longrightarrow>
   filter (is_response_for rid) (trace c') = filter (is_response_for rid) (trace c) \<Longrightarrow>
   counts_ok rid c c'"
  by (simp add: counts_ok_def n_responses_def n_waiting_def n_requests_def)

lemma counts_ok_trans:
  "counts_ok rid a b \<Longrightarrow> counts_ok rid b c \<Longrightarrow> counts_ok rid a c"
  by (simp add: counts_ok_def)

lemma catch_counts:
  "k < length (invocations c) \<Longrightarrow> counts_ok rid c (handleRequest_catch c k err)"
  using length_filter_list_update
          [of k "invocations c" "\<lambda>i. req_id (inv_req i) = rid \<and> waiting (inv_at i)"
              "(invocations c ! k)\<lparr>inv_at := Finished\<rparr>"]
        length_filter_list_update
          [of k "invocations c" "\<lambda>i. req_id (inv_req i) = rid"
              "(invocations c ! k)\<lparr>inv_at := Finished\<rparr>"]
  by (simp add: counts_ok_def n_responses_def n_waiting_def n_requests_def
      handleRequest_catch_nf split: if_splits)

lemma resume_counts:
  "k < length (invocations c) \<Longrightarrow> waiting (inv_at (invocations c ! k)) \<Longrightarrow>
   counts_ok rid c (handleRequest_resume c k (inv_req (invocations c ! k)) r)"
  using length_filter_list_update
          [of k "invocations c" "\<lambda>i. req_id (inv_req i) = rid \<and> waiting (inv_at i)"
              "(invocations c ! k)\<lparr>inv_at := AwaitSend\<rparr>"]
        length_filter_list_update
          [of k "invocations c" "\<lambda>i. req_id (inv_req i) = rid"
              "(invocations c ! k)\<lparr>inv_at := AwaitSend\<rparr>"]
        catch_counts [of k c rid]
  by (cases r)
     (simp_all add: handleRequest_resume_nf response_frame_def,
      simp add: counts_ok_def n_responses_def n_waiting_def n_requests_def split: if_splits)

lemma set_await_counts:
  "k < length (invocations c) \<Longrightarrow> \<not> waiting a \<Longrightarrow> counts_ok rid c (set_await c k a)"
  using length_filter_list_update
          [of k "invocations c" "\<lambda>i. req_id (inv_req i) = rid \<and> waiting (inv_at i)"
              "(invocations c ! k)\<lparr>inv_at := a\<rparr>"]
        length_filter_list_update
          [of k "invocations c" "\<lambda>i. req_id (inv_req i) = rid"
              "(invocations c ! k)\<lparr>inv_at := a\<rparr>"]
  by (simp add: counts_ok_def n_responses_def n_waiting_def n_requests_def set_await_def
      split: if_splits)

lemma proxy_resolve_counts:
  "k < length (invocations c) \<Longrightarrow> counts_ok rid c (proxy_resolve c k resp)"
  by (simp add: proxy_resolve_def resume_counts counts_ok_same)

lemma handleRequest_counts: "counts_ok rid c (handleRequest c req)"
  by (simp add: handleRequest_def new_invocation_def proxyHTTP_def proxy_options_def emit_def
      handleRequest_resume_nf handleRequest_catch_nf response_frame_def Let_def counts_ok_def
      n_responses_def n_waiting_def n_requests_def split: option.split)

lemma handleMessage_counts: "counts_ok rid c (handleMessage c d)"
proof (cases d)
  case (Inl err)
  then show ?thesis by (simp add: handleMessage_def emit_def counts_ok_same)
next
  case (Inr f)
  then show ?thesis
    by (cases f)
       (simp_all add: handleMessage_def handleRequest_counts counts_ok_same safeCallback_nf
          safeOnError_nf emit_def handleTCPConnection_def handleTCPData_def handleUDPData_def
          handleMessage_catch_def Let_def split: option.split outcome.split)
qed

lemma step_counts: "counts_ok rid c (step c e)"
proof (cases "enabled c e")
  case False
  then show ?thesis by (simp add: step_def counts_ok_same)
next
  case True
  show ?thesis
  proof (cases e)
    case (WsMessage w d)
    then show ?thesis using True by (simp add: step_def ws_on_message_def handleMessage_counts)
  next
    case (HandlerSettled k)
    then show ?thesis using True
      by (auto simp: step_def resume_counts split: await_point.splits)
  next
    case (ProxyEnd k res)
    then show ?thesis using True by (simp add: step_def proxy_on_end_def proxy_resolve_counts)
  next
    case (ProxyError k err)
    then show ?thesis using True by (simp add: step_def proxy_on_error_def proxy_resolve_counts)
  next
    case (ProxyTimeout k)
    have "counts_ok rid c (emit (HttpDestroy k) c)"
      by (simp add: counts_ok_same emit_def)
    moreover have "counts_ok rid (emit (HttpDestroy k) c)
                     (proxy_resolve (emit (HttpDestroy k) c) k
                        \<lparr>statusCode = 504, resp_headers = None,
                         resp_body = Some (StringBody ''Proxy Timeout'')\<rparr>)"
      using True ProxyTimeout by (intro proxy_resolve_counts) (simp add: emit_def)
    ultimately show ?thesis
      using True ProxyTimeout
      by (simp add: step_def proxy_on_timeout_def) (rule counts_ok_trans)
  next
    case (SendDone k err)
    then show ?thesis using True
      by (cases err) (simp_all add: step_def send_callback_def set_await_counts catch_counts)
  qed (simp_all add: counts_ok_same handler_nf split: event_splits)
qed

lemma run_counts:
  "n_responses rid c + n_waiting rid c \<le> n_requests rid c \<Longrightarrow>
   n_responses rid (run c evs) + n_waiting rid (run c evs) \<le> n_requests rid (run c evs)"
proof (induction evs arbitrary: c)
  case Nil
  then show ?case by simp
next
  case (Cons e evs)
  have "counts_ok rid c (step c e)" by (rule step_counts)
  with Cons.prems
  have "n_responses rid (step c e) + n_waiting rid (step c e) \<le> n_requests rid (step c e)"
    by (simp add: counts_ok_def)
  then show ?case using Cons.IH by simp
qed


text \<open>
  C1, as the claim states it, fails: the handler returns a response, but \<^verbatim>\<open>close()\<close> was
  called while the handler's result was awaited, and \<^verbatim>\<open>sendResponse\<close> rejects with
  \<^verbatim>\<open>Client is closed\<close>. No response frame for \<^verbatim>\<open>r1\<close> is ever sent, although the handler
  did not throw.
\<close>

theorem closed_before_response:
  "example_handler example_request =
     Returns \<lparr>statusCode = 200, resp_headers = None, resp_body = Some (StringBody ''ok'')\<rparr> \<and>
   feasible (Client_new example_node (example_options\<lparr>opt_onRequest := Some example_handler\<rparr>))
     [CallConnect, WsOpen 0, WsMessage 0 (Inr (Request example_message)), CallClose,
      HandlerSettled 0] \<and>
   responses_for ''r1''
     (run (Client_new example_node (example_options\<lparr>opt_onRequest := Some example_handler\<rparr>))
        [CallConnect, WsOpen 0, WsMessage 0 (Inr (Request example_message)), CallClose,
         HandlerSettled 0]) = []"
  by (simp add: client_defs example_defs responses_for_def)

text \<open>
  C1, amended. However the events fall, the client never sends more response frames with
  a request id than it has received requests with that id. An invocation resumes with
  its response when the handler's result arrives, when the answer of the upstream server
  has been read (its status or 500, its headers, its body), when the upstream request
  fails (502) or times out (504), or at once with the fixed 501. When it resumes with a
  response, a client that is not closed and holds an open channel sends exactly the one
  response frame, with the request's id and that status, headers and body; a client that
  is closed, holds no channel, or holds one that is not open sends none and reports what
  \<^verbatim>\<open>sendResponse\<close> rejected with; when the handler throws or rejects, none is sent and
  the error is reported. After that the invocation waits for no response any more.
\<close>

theorem response_per_request:
  "n_responses rid (run (Client_new lib options) evs)
     \<le> n_requests rid (run (Client_new lib options) evs) \<and>
   (k < length (invocations c) \<and> inv_at (invocations c ! k) = AwaitHandler r \<longrightarrow>
      step c (HandlerSettled k) = handleRequest_resume c k (inv_req (invocations c ! k)) r) \<and>
   (k < length (invocations c) \<and> inv_proxied (invocations c ! k) \<and>
    inv_at (invocations c ! k) = AwaitProxy \<longrightarrow>
      step c (ProxyEnd k res) =
        handleRequest_resume c k (inv_req (invocations c ! k))
          (Returns \<lparr>statusCode = (case up_statusCode res of None \<Rightarrow> 500 | Some n \<Rightarrow> n),
                    resp_headers = Some (List.map_filter header_entry (up_headers res)),
                    resp_body = Some (BufferBody (concat (up_chunks res)))\<rparr>) \<and>
      step c (ProxyError k e) =
        handleRequest_resume c k (inv_req (invocations c ! k))
          (Returns \<lparr>statusCode = 502, resp_headers = None,
                    resp_body = Some (StringBody (''Proxy Error: '' @ message e))\<rparr>) \<and>
      step c (ProxyTimeout k) =
        handleRequest_resume (emit (HttpDestroy k) c) k (inv_req (invocations c ! k))
          (Returns \<lparr>statusCode = 504, resp_headers = None,
                    resp_body = Some (StringBody ''Proxy Timeout'')\<rparr>)) \<and>
   (onRequest c = None \<and> \<not> (port c > 0 \<and> protocol c = Http) \<longrightarrow>
      handleRequest c req =
        handleRequest_resume (new_invocation c req Finished False) (length (invocations c)) req
          (Returns \<lparr>statusCode = 501, resp_headers = None,
                    resp_body = Some (StringBody ''Not implemented'')\<rparr>)) \<and>
   (ws c = Some w \<and> \<not> closed c \<and> readyState (sockets c ! w) = OPEN \<longrightarrow>
      trace (handleRequest_resume c k req (Returns resp)) =
        trace c @
          [WsSend w (Response (req_id req) (statusCode resp)
             (case resp_headers resp of None \<Rightarrow> [] | Some h \<Rightarrow> h)
             (case resp_body resp of
                None \<Rightarrow> Text []
              | Some (BufferBody b) \<Rightarrow> Decoded b
              | Some (StringBody s) \<Rightarrow> Text s))]) \<and>
   (\<not> can_send c \<longrightarrow>
      trace (handleRequest_resume c k req (Returns resp)) =
        trace c @ LogError (Error_handling_request (message (as_Error (send_refusal c)))) #
          error_report c (as_Error (send_refusal c))) \<and>
   (failure r' = Some err \<longrightarrow>
      trace (handleRequest_resume c k req r') =
        trace c @ LogError (Error_handling_request (message (as_Error err))) #
          error_report c (as_Error err)) \<and>
   (k < length (invocations c) \<longrightarrow>
      \<not> waiting (inv_at (invocations (handleRequest_resume c k req r'') ! k)))"
proof -
  have "n_responses rid (Client_new lib options) + n_waiting rid (Client_new lib options)
          \<le> n_requests rid (Client_new lib options)"
    by (simp add: n_responses_def n_waiting_def n_requests_def Client_new_def)
  from run_counts [OF this, of evs]
  have "n_responses rid (run (Client_new lib options) evs)
          \<le> n_requests rid (run (Client_new lib options) evs)"
    by linarith
  moreover have "k < length (invocations c) \<and> inv_at (invocations c ! k) = AwaitHandler r \<longrightarrow>
      step c (HandlerSettled k) = handleRequest_resume c k (inv_req (invocations c ! k)) r"
    by (simp add: step_def)
  moreover have "k < length (invocations c) \<and> inv_proxied (invocations c ! k) \<and>
    inv_at (invocations c ! k) = AwaitProxy \<longrightarrow>
      step c (ProxyEnd k res) =
        handleRequest_resume c k (inv_req (invocations c ! k))
          (Returns \<lparr>statusCode = (case up_statusCode res of None \<Rightarrow> 500 | Some n \<Rightarrow> n),
                    resp_headers = Some (List.map_filter header_entry (up_headers res)),
                    resp_body = Some (BufferBody (concat (up_chunks res)))\<rparr>) \<and>
      step c (ProxyError k e) =
        handleRequest_resume c k (inv_req (invocations c ! k))
          (Returns \<lparr>statusCode = 502, resp_headers = None,
                    resp_body = Some (StringBody (''Proxy Error: '' @ message e))\<rparr>) \<and>
      step c (ProxyTimeout k) =
        handleRequest_resume (emit (HttpDestroy k) c) k (inv_req (invocations c ! k))
          (Returns \<lparr>statusCode = 504, resp_headers = None,
                    resp_body = Some (StringBody ''Proxy Timeout'')\<rparr>)"
    by (simp add: step_def proxy_on_end_def proxy_on_error_def proxy_on_timeout_def
        proxy_resolve_def emit_def)
  moreover have "onRequest c = None \<and> \<not> (port c > 0 \<and> protocol c = Http) \<longrightarrow>
      handleRequest c req =
        handleRequest_resume (new_invocation c req Finished False) (length (invocations c)) req
          (Returns \<lparr>statusCode = 501, resp_headers = None,
                    resp_body = Some (StringBody ''Not implemented'')\<rparr>)"
    by (simp add: handleRequest_def Let_def)
  moreover have "ws c = Some w \<and> \<not> closed c \<and> readyState (sockets c ! w) = OPEN \<longrightarrow>
      trace (handleRequest_resume c k req (Returns resp)) =
        trace c @
          [WsSend w (Response (req_id req) (statusCode resp)
             (case resp_headers resp of None \<Rightarrow> [] | Some h \<Rightarrow> h)
             (case resp_body resp of
                None \<Rightarrow> Text []
              | Some (BufferBody b) \<Rightarrow> Decoded b
              | Some (StringBody s) \<Rightarrow> Text s))]"
    by (simp add: handleRequest_resume_nf can_send_def response_frame_def)
  moreover have "\<not> can_send c \<longrightarrow>
      trace (handleRequest_resume c k req (Returns resp)) =
        trace c @ LogError (Error_handling_request (message (as_Error (send_refusal c)))) #
          error_report c (as_Error (send_refusal c))"
    by (simp add: handleRequest_resume_nf handleRequest_catch_nf)
  moreover have "failure r' = Some err \<longrightarrow>
      trace (handleRequest_resume c k req r') =
        trace c @ LogError (Error_handling_request (message (as_Error err))) #
          error_report c (as_Error err)"
    by (cases r') (simp_all add: handleRequest_resume_nf handleRequest_catch_nf)
  moreover have "k < length (invocations c) \<longrightarrow>
      \<not> waiting (inv_at (invocations (handleRequest_resume c k req r'') ! k))"
    by (simp add: handleRequest_resume_nf handleRequest_catch_nf split: outcome.split)
  ultimately show ?thesis by blast
qed

theorem response_per_request_witness:
  "n_responses ''r1''
     (run (Client_new example_node (example_options\<lparr>opt_onRequest := Some example_handler\<rparr>))
        [CallConnect, WsOpen 0, WsMessage 0 (Inr (Request example_message)),
         HandlerSettled 0]) = 1 \<and>
   trace (run (example_client\<lparr>onRequest := Some example_handler\<rparr>)
            [WsMessage 0 (Inr (Request example_message)), HandlerSettled 0]) =
     trace example_client @
       [CallOnRequest example_request, WsSend 0 (Response ''r1'' 200 [] (Text ''ok''))] \<and>
   trace (run example_client
            [WsMessage 0 (Inr (Request example_message)),
             ProxyEnd 0 \<lparr>up_statusCode = Some 404,
                         up_headers = [(''set-cookie'', Multi [''a'', ''b''])],
                         up_chunks = [''no'', ''pe'']\<rparr>]) =
     trace example_client @
       [HttpRequest 0
          \<lparr>ro_hostname = ''localhost'', ro_port = 8080, ro_path = ''/x'', ro_method = ''GET'',
           ro_headers = [], ro_timeout = 30000\<rparr> None,
        WsSend 0 (Response ''r1'' 404 [(''set-cookie'', ''a'')] (Decoded ''nope''))] \<and>
   trace (run (example_client\<lparr>onRequest := Some example_handler\<rparr>)
            [WsMessage 0 (Inr (Request example_message)), CallClose, HandlerSettled 0]) =
     trace example_client @
       [CallOnRequest example_request, WsCloseCall 0,
        LogError (Error_handling_request ''Client is closed'')] \<and>
   trace (run (example_client\<lparr>onRequest := Some failing_handler\<rparr>)
            [WsMessage 0 (Inr (Request example_message)), HandlerSettled 0]) =
     trace example_client @
       [CallOnRequest example_request, LogError (Error_handling_request ''boom'')] \<and>
   trace (run (example_client\<lparr>protocol := Tcp\<rparr>)
            [WsMessage 0 (Inr (Request example_message))]) =
     trace example_client @ [WsSend 0 (Response ''r1'' 501 [] (Text ''Not implemented''))]"
  using response_per_request
          [where rid = "''r1''" and lib = example_node
             and options = "example_options\<lparr>opt_onRequest := Some example_handler\<rparr>"
             and evs = "[CallConnect, WsOpen 0, WsMessage 0 (Inr (Request example_message)),
                         HandlerSettled 0]"
             and c = "handleRequest (example_client\<lparr>onRequest := Some example_handler\<rparr>)
                        example_request"
             and k = 0 and r = "example_handler example_request" and w = 0
             and req = example_request
             and resp = "\<lparr>statusCode = 200, resp_headers = None,
                           resp_body = Some (StringBody ''ok'')\<rparr>"
             and r' = "Throws (ThrownValue ''boom'')" and err = "ThrownValue ''boom''"
             and r'' = "example_handler example_request"]
        response_per_request
          [where rid = "''r1''" and lib = example_node and options = example_options
             and evs = "[]"
             and c = "handleRequest example_client example_request"
             and k = 0 and w = 0 and req = example_request
             and res = "\<lparr>up_statusCode = Some 404,
                          up_headers = [(''set-cookie'', Multi [''a'', ''b''])],
                          up_chunks = [''no'', ''pe'']\<rparr>"
             and resp = "\<lparr>statusCode = 404, resp_headers = Some [(''set-cookie'', ''a'')],
                           resp_body = Some (BufferBody ''nope'')\<rparr>"
             and r' = "Throws (ThrownValue ''boom'')" and err = "ThrownValue ''boom''"]
        response_per_request
          [where rid = "''r1''" and lib = example_node and options = example_options
             and evs = "[]"
             and c = "close (handleRequest (example_client\<lparr>onRequest := Some example_handler\<rparr>)
                        example_request)"
             and k = 0 and r = "example_handler example_request" and req = example_request
             and resp = "\<lparr>statusCode = 200, resp_headers = None,
                           resp_body = Some (StringBody ''ok'')\<rparr>"
             and r' = "Throws (ThrownValue ''boom'')" and err = "ThrownValue ''boom''"]
        response_per_request
          [where rid = "''r1''" and lib = example_node and options = example_options
             and evs = "[]" and c = "example_client\<lparr>protocol := Tcp\<rparr>" and w = 0
             and req = example_request
             and r' = "Throws (ThrownValue ''boom'')" and err = "ThrownValue ''boom''"]
  by (simp add: client_defs example_defs n_responses_def n_requests_def error_report_def
      can_send_def send_refusal_def List.map_filter_def)


subsection \<open>The local HTTP proxy\<close>





subsection \<open>Datagram exchanges\<close>

lemma udp_ok_same:
  "dgrams c' = dgrams c \<Longrightarrow>
   filter (is_udp_response_for pid) (trace c') = filter (is_udp_response_for pid) (trace c) \<Longrightarrow>
   udp_ok pid c c'"
  by (simp add: udp_ok_def n_udp_responses_def n_open_exchanges_def n_exchanges_def)

lemma udp_ok_trans: "udp_ok pid a b \<Longrightarrow> udp_ok pid b c \<Longrightarrow> udp_ok pid a c"
  by (simp add: udp_ok_def)

lemma dgram_close_udp: "u < length (dgrams c) \<Longrightarrow> udp_ok pid c (dgram_close c u)"
  using length_filter_list_update
          [of u "dgrams c" "\<lambda>x. ux_packetId x = pid \<and> ux_open x"
              "(dgrams c ! u)\<lparr>ux_open := False, ux_timer := False\<rparr>"]
        length_filter_list_update
          [of u "dgrams c" "\<lambda>x. ux_packetId x = pid"
              "(dgrams c ! u)\<lparr>ux_open := False, ux_timer := False\<rparr>"]
  by (simp add: udp_ok_def n_udp_responses_def n_open_exchanges_def n_exchanges_def
      dgram_close_def emit_def split: if_splits)

lemma udp_on_message_udp:
  "u < length (dgrams c) \<Longrightarrow> ux_open (dgrams c ! u) \<Longrightarrow> udp_ok pid c (udp_on_message c u d)"
  using length_filter_list_update
          [of u "dgrams c" "\<lambda>x. ux_packetId x = pid \<and> ux_open x"
              "(dgrams c ! u)\<lparr>ux_open := False, ux_timer := False\<rparr>"]
        length_filter_list_update
          [of u "dgrams c" "\<lambda>x. ux_packetId x = pid"
              "(dgrams c ! u)\<lparr>ux_open := False, ux_timer := False\<rparr>"]
  by (simp add: udp_ok_def n_udp_responses_def n_open_exchanges_def n_exchanges_def
      udp_on_message_nf dgram_close_def emit_def split: if_splits)

lemma handleMessage_udp: "udp_ok pid c (handleMessage c d)"
proof (cases d)
  case (Inl err)
  then show ?thesis by (simp add: handleMessage_def emit_def udp_ok_same)
next
  case (Inr f)
  show ?thesis
  proof (cases f)
    case (Udp_data p b)
    then show ?thesis using Inr
      by (simp add: handleMessage_def handleMessage_catch_def handleUDPData_def emit_def
          Let_def udp_ok_def n_udp_responses_def n_open_exchanges_def n_exchanges_def)
  qed (simp_all add: Inr udp_ok_same handler_nf response_frame_def split: event_splits)
qed

lemma step_udp: "udp_ok pid c (step c e)"
proof (cases "enabled c e")
  case False
  then show ?thesis by (simp add: step_def udp_ok_same)
next
  case True
  show ?thesis
  proof (cases e)
    case (WsMessage w d)
    then show ?thesis using True by (simp add: step_def ws_on_message_def handleMessage_udp)
  next
    case (DgramMessage u d)
    then show ?thesis using True by (simp add: step_def udp_on_message_udp)
  next
    case (DgramError u err)
    have "udp_ok pid c (safeOnError c err)"
      by (simp add: udp_ok_same safeOnError_nf)
    moreover have "udp_ok pid (safeOnError c err) (dgram_close (safeOnError c err) u)"
      using True DgramError by (intro dgram_close_udp) (simp add: safeOnError_nf)
    ultimately show ?thesis
      using True DgramError by (simp add: step_def udp_on_error_def) (rule udp_ok_trans)
  next
    case (DgramTimeout u)
    then show ?thesis using True by (simp add: step_def udp_on_timeout_def dgram_close_udp)
  qed (simp_all add: udp_ok_same handler_nf response_frame_def split: event_splits)
qed

lemma run_udp:
  "n_udp_responses pid c + n_open_exchanges pid c \<le> n_exchanges pid c \<Longrightarrow>
   n_udp_responses pid (run c evs) + n_open_exchanges pid (run c evs)
     \<le> n_exchanges pid (run c evs)"
proof (induction evs arbitrary: c)
  case Nil
  then show ?case by simp
next
  case (Cons e evs)
  have "udp_ok pid c (step c e)" by (rule step_udp)
  with Cons.prems
  have "n_udp_responses pid (step c e) + n_open_exchanges pid (step c e)
          \<le> n_exchanges pid (step c e)"
    by (simp add: udp_ok_def)
  then show ?case using Cons.IH by simp
qed

lemma closed_exchange_stays:
  "u < length (dgrams c) \<Longrightarrow> \<not> ux_open (dgrams c ! u) \<Longrightarrow> \<not> ux_timer (dgrams c ! u) \<Longrightarrow>
   \<not> ux_open (dgrams (step c e) ! u) \<and> \<not> ux_timer (dgrams (step c e) ! u)"
  by (cases e)
     (simp_all add: handler_nf nth_append nth_update_any split: event_splits)

text \<open>
  C2, as the claim states it, fails: the datagram of the local service arrives within
  the timeout window, but \<^verbatim>\<open>close()\<close> was called before it. The listener sends no frame
  (the guard \<^verbatim>\<open>this.ws && !this.closed\<close> fails), closes the socket and clears the
  timer: no \<^verbatim>\<open>udp_response\<close> is ever sent for \<^verbatim>\<open>p1\<close>, although the local response was
  the first to come and the timeout never elapses.
\<close>

theorem udp_first_datagram_unanswered:
  "feasible (Client_new example_node udp_options)
     [CallConnect, WsOpen 0, WsMessage 0 (Inr (Udp_data ''p1'' (Base64 ''q''))), CallClose,
      DgramMessage 0 ''a''] \<and>
   trace (run (Client_new example_node udp_options)
            [CallConnect, WsOpen 0, WsMessage 0 (Inr (Udp_data ''p1'' (Base64 ''q''))), CallClose,
             DgramMessage 0 ''a'']) =
     [NewWebSocket 0 ''wss://api.outray.dev'', WsSend 0 (Open_tunnel ''key'' Udp 0),
      DgramCreate 0, DgramSend 0 ''q'' 5353, WsCloseCall 0, DgramClose 0] \<and>
   \<not> enabled (run (Client_new example_node udp_options)
                [CallConnect, WsOpen 0, WsMessage 0 (Inr (Udp_data ''p1'' (Base64 ''q''))),
                 CallClose, DgramMessage 0 ''a''])
        (DgramTimeout 0) \<and>
   \<not> enabled (run (Client_new example_node udp_options)
                [CallConnect, WsOpen 0, WsMessage 0 (Inr (Udp_data ''p1'' (Base64 ''q''))),
                 CallClose, DgramMessage 0 ''a''])
        (DgramMessage 0 ''b'')"
  by (simp add: client_defs example_defs)

text \<open>
  C2, amended. However the events fall, the client never sends more \<^verbatim>\<open>udp_response\<close>
  frames with a packet id than it has received \<^verbatim>\<open>udp_data\<close> frames with that id: at most
  one per exchange. A datagram that the local socket delivers while the client is not
  closed and holds an open channel sends the frame, closes the socket and clears the
  timer. One delivered while the client is closed, holds no channel, or holds one that is
  closing or closed, closes the socket and clears the timer without a frame. The timer
  closes the socket without a frame; and a socket that is closed with its timer cleared
  stays so, with neither a further datagram nor the timeout able to happen.
\<close>

theorem udp_at_most_one_response:
  "n_udp_responses pid (run (Client_new lib options) evs)
     \<le> n_exchanges pid (run (Client_new lib options) evs) \<and>
   (u < length (dgrams c) \<and> ux_open (dgrams c ! u) \<and>
    ws c = Some w \<and> \<not> closed c \<and> readyState (sockets c ! w) = OPEN \<longrightarrow>
      trace (step c (DgramMessage u d)) =
        trace c @ [WsSend w (Udp_response (ux_packetId (dgrams c ! u)) (Base64 d)),
                   DgramClose u] \<and>
      \<not> ux_open (dgrams (step c (DgramMessage u d)) ! u) \<and>
      \<not> ux_timer (dgrams (step c (DgramMessage u d)) ! u)) \<and>
   (u < length (dgrams c) \<and> ux_open (dgrams c ! u) \<and>
    (closed c \<or> ws c = None \<or>
     (\<exists>w'. ws c = Some w' \<and> (readyState (sockets c ! w') = CLOSING \<or>
                               readyState (sockets c ! w') = CLOSED))) \<longrightarrow>
      trace (step c (DgramMessage u d)) = trace c @ [DgramClose u] \<and>
      \<not> ux_open (dgrams (step c (DgramMessage u d)) ! u) \<and>
      \<not> ux_timer (dgrams (step c (DgramMessage u d)) ! u)) \<and>
   (u < length (dgrams c) \<and> ux_timer (dgrams c ! u) \<longrightarrow>
      trace (step c (DgramTimeout u)) = trace c @ [DgramClose u] \<and>
      \<not> ux_open (dgrams (step c (DgramTimeout u)) ! u) \<and>
      \<not> ux_timer (dgrams (step c (DgramTimeout u)) ! u)) \<and>
   (u < length (dgrams c) \<and> \<not> ux_open (dgrams c ! u) \<and> \<not> ux_timer (dgrams c ! u) \<longrightarrow>
      \<not> ux_open (dgrams (step c e) ! u) \<and> \<not> ux_timer (dgrams (step c e) ! u) \<and>
      step c (DgramMessage u d) = c \<and> step c (DgramTimeout u) = c)"
proof -
  have "n_udp_responses pid (Client_new lib options) +
          n_open_exchanges pid (Client_new lib options)
          \<le> n_exchanges pid (Client_new lib options)"
    by (simp add: n_udp_responses_def n_open_exchanges_def n_exchanges_def Client_new_def)
  from run_udp [OF this, of evs]
  have "n_udp_responses pid (run (Client_new lib options) evs)
          \<le> n_exchanges pid (run (Client_new lib options) evs)"
    by linarith
  moreover have "u < length (dgrams c) \<and> ux_open (dgrams c ! u) \<and>
    ws c = Some w \<and> \<not> closed c \<and> readyState (sockets c ! w) = OPEN \<longrightarrow>
      trace (step c (DgramMessage u d)) =
        trace c @ [WsSend w (Udp_response (ux_packetId (dgrams c ! u)) (Base64 d)),
                   DgramClose u] \<and>
      \<not> ux_open (dgrams (step c (DgramMessage u d)) ! u) \<and>
      \<not> ux_timer (dgrams (step c (DgramMessage u d)) ! u)"
    by (simp add: step_def udp_on_message_nf can_send_def dgram_close_def emit_def)
  moreover have "u < length (dgrams c) \<and> ux_open (dgrams c ! u) \<and>
    (closed c \<or> ws c = None \<or>
     (\<exists>w'. ws c = Some w' \<and> (readyState (sockets c ! w') = CLOSING \<or>
                               readyState (sockets c ! w') = CLOSED))) \<longrightarrow>
      trace (step c (DgramMessage u d)) = trace c @ [DgramClose u] \<and>
      \<not> ux_open (dgrams (step c (DgramMessage u d)) ! u) \<and>
      \<not> ux_timer (dgrams (step c (DgramMessage u d)) ! u)"
  proof -
    have "closed c \<or> ws c = None \<or>
          (\<exists>w'. ws c = Some w' \<and> (readyState (sockets c ! w') = CLOSING \<or>
                                    readyState (sockets c ! w') = CLOSED)) \<Longrightarrow>
          \<not> can_send c \<and> \<not> send_throws c"
      by (auto simp: can_send_def send_throws_def split: option.split)
    then show ?thesis
      by (simp add: step_def udp_on_message_nf dgram_close_def emit_def)
  qed
  moreover have "u < length (dgrams c) \<and> ux_timer (dgrams c ! u) \<longrightarrow>
      trace (step c (DgramTimeout u)) = trace c @ [DgramClose u] \<and>
      \<not> ux_open (dgrams (step c (DgramTimeout u)) ! u) \<and>
      \<not> ux_timer (dgrams (step c (DgramTimeout u)) ! u)"
    by (simp add: step_def udp_on_timeout_def dgram_close_def emit_def)
  moreover have "u < length (dgrams c) \<and> \<not> ux_open (dgrams c ! u) \<and>
      \<not> ux_timer (dgrams c ! u) \<longrightarrow>
      \<not> ux_open (dgrams (step c e) ! u) \<and> \<not> ux_timer (dgrams (step c e) ! u) \<and>
      step c (DgramMessage u d) = c \<and> step c (DgramTimeout u) = c"
    using closed_exchange_stays [of u c e] by (simp add: step_def)
  ultimately show ?thesis by blast
qed

theorem udp_at_most_one_response_witness:
  "trace (run (Client_new example_node udp_options)
            [CallConnect, WsOpen 0, WsMessage 0 (Inr (Udp_data ''p1'' (Base64 ''q''))),
             DgramMessage 0 ''a'', DgramMessage 0 ''b'', DgramTimeout 0]) =
     [NewWebSocket 0 ''wss://api.outray.dev'', WsSend 0 (Open_tunnel ''key'' Udp 0),
      DgramCreate 0, DgramSend 0 ''q'' 5353,
      WsSend 0 (Udp_response ''p1'' (Base64 ''a'')), DgramClose 0] \<and>
   trace (run (Client_new example_node udp_options)
            [CallConnect, WsOpen 0, WsMessage 0 (Inr (Udp_data ''p1'' (Base64 ''q''))),
             DgramTimeout 0, DgramMessage 0 ''a'']) =
     [NewWebSocket 0 ''wss://api.outray.dev'', WsSend 0 (Open_tunnel ''key'' Udp 0),
      DgramCreate 0, DgramSend 0 ''q'' 5353, DgramClose 0] \<and>
   trace (run (Client_new example_node udp_options)
            [CallConnect, WsOpen 0, WsMessage 0 (Inr (Udp_data ''p1'' (Base64 ''q''))),
             CallClose, DgramMessage 0 ''a'']) =
     [NewWebSocket 0 ''wss://api.outray.dev'', WsSend 0 (Open_tunnel ''key'' Udp 0),
      DgramCreate 0, DgramSend 0 ''q'' 5353, WsCloseCall 0, DgramClose 0] \<and>
   trace (run (Client_new example_node udp_options)
            [CallConnect, WsOpen 0, WsMessage 0 (Inr (Udp_data ''p1'' (Base64 ''q''))),
             WsError 0 (ThrownError (JsError ''Error'' ''Invalid frame'')),
             DgramMessage 0 ''a'']) =
     [NewWebSocket 0 ''wss://api.outray.dev'', WsSend 0 (Open_tunnel ''key'' Udp 0),
      DgramCreate 0, DgramSend 0 ''q'' 5353,
      LogWarn (Connection_error ''Invalid frame'' 1000), Sleep 1000, DgramClose 0]"
  using udp_at_most_one_response
          [of "''p1''" example_node udp_options
              "[CallConnect, WsOpen 0, WsMessage 0 (Inr (Udp_data ''p1'' (Base64 ''q''))),
                DgramMessage 0 ''a'', DgramMessage 0 ''b'', DgramTimeout 0]"
              0
              "run (Client_new example_node udp_options)
                 [CallConnect, WsOpen 0, WsMessage 0 (Inr (Udp_data ''p1'' (Base64 ''q'')))]"
              0 "''a''" "DgramTimeout 0"]
        udp_at_most_one_response
          [of "''p1''" example_node udp_options
              "[CallConnect, WsOpen 0, WsMessage 0 (Inr (Udp_data ''p1'' (Base64 ''q''))),
                DgramMessage 0 ''a'', DgramMessage 0 ''b'', DgramTimeout 0]"
              0
              "run (Client_new example_node udp_options)
                 [CallConnect, WsOpen 0, WsMessage 0 (Inr (Udp_data ''p1'' (Base64 ''q''))),
                  DgramMessage 0 ''a'']"
              0 "''b''" "DgramTimeout 0"]
        udp_at_most_one_response
          [of "''p1''" example_node udp_options "[]" 0
              "run (Client_new example_node udp_options)
                 [CallConnect, WsOpen 0, WsMessage 0 (Inr (Udp_data ''p1'' (Base64 ''q''))),
                  CallClose]"
              0 "''a''" "DgramTimeout 0"]
        udp_at_most_one_response
          [of "''p1''" example_node udp_options "[]" 0
              "run (Client_new example_node udp_options)
                 [CallConnect, WsOpen 0, WsMessage 0 (Inr (Udp_data ''p1'' (Base64 ''q''))),
                  WsError 0 (ThrownError (JsError ''Error'' ''Invalid frame''))]"
              0 "''a''" "DgramTimeout 0"]
  by (simp add: client_defs example_defs)

text \<open>
  The remaining state: the client is not closed and holds a WebSocket that is still
  connecting (the channel has closed and the loop has made the next one). \<^verbatim>\<open>ws.send\<close> throws,
  the exception leaves the \<^verbatim>\<open>message\<close> listener, and \<^verbatim>\<open>socket.close()\<close> is not reached:
  no frame is sent, and the datagram socket and its timer stay as they are.
\<close>

lemma udp_send_on_connecting_channel:
  "u < length (dgrams c) \<Longrightarrow> ux_open (dgrams c ! u) \<Longrightarrow> ws c = Some w \<Longrightarrow> \<not> closed c \<Longrightarrow>
   readyState (sockets c ! w) = CONNECTING \<Longrightarrow>
   step c (DgramMessage u d) =
     emit (Uncaught (ThrownError (ws_not_open (node c) CONNECTING))) c"
  by (simp add: step_def udp_on_message_nf can_send_def send_throws_def send_refusal_def)

subsection \<open>The reconnect loop\<close>

lemma backoff_step:
  "backoff (step c e) =
     (case e of
        CallConnect \<Rightarrow> if loop c = Idle \<or> loop c = Exited then 1000 else backoff c
      | SleepOver \<Rightarrow> if loop c = Sleeping then min (backoff c * 2) 30000 else backoff c
      | WsClosed w \<Rightarrow>
          if w < length (sockets c) \<and> readyState (sockets c ! w) \<noteq> CLOSED \<and>
             close_listener (sockets c ! w) \<and> lifecycle (sockets c ! w) = Pending
          then 1000 else backoff c
      | _ \<Rightarrow> backoff c)"
  by (cases e) (simp_all add: handler_nf split: event_splits)

lemma backoff_bounds_step:
  "1000 \<le> backoff c \<and> backoff c \<le> 30000 \<Longrightarrow>
   1000 \<le> backoff (step c e) \<and> backoff (step c e) \<le> 30000"
  by (cases e) (simp_all add: backoff_step)

lemma backoff_bounds_run:
  "1000 \<le> backoff c \<and> backoff c \<le> 30000 \<Longrightarrow>
   1000 \<le> backoff (run c evs) \<and> backoff (run c evs) \<le> 30000"
proof (induction evs arbitrary: c)
  case Nil
  then show ?case by simp
next
  case (Cons e evs)
  from Cons.prems have "1000 \<le> backoff (step c e) \<and> backoff (step c e) \<le> 30000"
    by (rule backoff_bounds_step)
  then show ?case using Cons.IH by simp
qed

lemma failure_sleeps:
  "w < length (sockets c) \<Longrightarrow> readyState (sockets c ! w) \<noteq> CLOSED \<Longrightarrow>
   lifecycle (sockets c ! w) = Pending \<Longrightarrow>
   trace (step c (WsError w err)) =
     trace c @ LogWarn (Connection_error (message (as_Error err)) (backoff c)) #
       error_report c (as_Error err) @ [Sleep (backoff c)] \<and>
   loop (step c (WsError w err)) = Sleeping \<and>
   backoff (step c (WsError w err)) = backoff c"
  by (simp add: handler_nf error_report_def)

text \<open>
  C3: the code breaks the claim, and its own comment
  \<^verbatim>\<open>backoff = 1000; // Reset backoff on successful connection\<close>. The assignment stands
  after \<^verbatim>\<open>await this.connectOnce()\<close>, which returns only when a channel that had opened
  emits \<^verbatim>\<open>close\<close> with no \<^verbatim>\<open>error\<close> before it; the \<^verbatim>\<open>open\<close> event never changes the
  backoff. Here the first attempt fails before it opens (the loop sleeps 1000 ms), the
  second one opens and then fails: the backoff after the successful open is still 2000,
  and the loop sleeps 2000 ms, not 1000 ms.
\<close>

theorem backoff_not_reset_on_open:
  "feasible (Client_new example_node example_options) two_failures \<and>
   backoff (run (Client_new example_node example_options) (take 4 two_failures)) = 2000 \<and>
   readyState (sockets (run (Client_new example_node example_options) (take 5 two_failures)) ! 1)
     = OPEN \<and>
   backoff (run (Client_new example_node example_options) (take 5 two_failures)) = 2000 \<and>
   filter is_sleep (trace (run (Client_new example_node example_options) two_failures)) =
     [Sleep 1000, Sleep 2000] \<and>
   backoff (step c (WsOpen w)) = backoff c"
  using backoff_step [of c "WsOpen w"]
  by (simp add: client_defs example_defs)

subsection \<open>The promise of connectOnce\<close>

lemma lifecycle_step_pending:
  "w < length (sockets c) \<Longrightarrow> lifecycle (sockets c ! w) = Pending \<Longrightarrow>
   lifecycle (sockets (step c e) ! w) =
     (case e of
        WsClosed w' \<Rightarrow>
          if w' = w \<and> readyState (sockets c ! w) \<noteq> CLOSED \<and> close_listener (sockets c ! w)
          then Fulfilled else Pending
      | WsError w' err \<Rightarrow>
          if w' = w \<and> readyState (sockets c ! w) \<noteq> CLOSED then Rejected err else Pending
      | _ \<Rightarrow> Pending)"
  by (cases e)
     (simp_all add: handler_nf nth_append nth_update_any split: event_splits)

lemma lifecycle_step_settled:
  "w < length (sockets c) \<Longrightarrow> lifecycle (sockets c ! w) \<noteq> Pending \<Longrightarrow>
   lifecycle (sockets (step c e) ! w) = lifecycle (sockets c ! w)"
  by (cases e)
     (simp_all add: handler_nf nth_append nth_update_any split: event_splits)

lemma close_listener_step:
  "w < length (sockets c) \<Longrightarrow>
   close_listener (sockets (step c e) ! w) =
     (close_listener (sockets c ! w) \<or> e = WsOpen w \<and> readyState (sockets c ! w) = CONNECTING)"
  by (cases e)
     (auto simp: handler_nf nth_append nth_update_any split: event_splits)

text \<open>
  C5, as the claim states it, fails: a channel that fails before it opens emits \<^verbatim>\<open>error\<close>
  and then \<^verbatim>\<open>close\<close>; the promise is rejected at the \<^verbatim>\<open>error\<close> event, and when the
  channel has closed it is still rejected, not resolved.
\<close>

theorem rejected_not_resolved:
  "feasible (Client_new example_node example_options)
     [CallConnect, WsError 0 (ThrownError (JsError ''Error'' ''ECONNREFUSED'')), WsClosed 0] \<and>
   readyState (sockets (run (Client_new example_node example_options)
     [CallConnect, WsError 0 (ThrownError (JsError ''Error'' ''ECONNREFUSED'')),
      WsClosed 0]) ! 0) = CLOSED \<and>
   lifecycle (sockets (run (Client_new example_node example_options)
     [CallConnect, WsError 0 (ThrownError (JsError ''Error'' ''ECONNREFUSED''))]) ! 0) =
     Rejected (ThrownError (JsError ''Error'' ''ECONNREFUSED'')) \<and>
   lifecycle (sockets (run (Client_new example_node example_options)
     [CallConnect, WsError 0 (ThrownError (JsError ''Error'' ''ECONNREFUSED'')),
      WsClosed 0]) ! 0) =
     Rejected (ThrownError (JsError ''Error'' ''ECONNREFUSED''))"
  by (simp add: client_defs example_defs)

text \<open>
  C5, amended. The promise of a connection attempt is pending when \<^verbatim>\<open>connectOnce\<close>
  returns it. While it is pending, exactly two events settle it: the \<^verbatim>\<open>close\<close> event of
  its channel fulfils it, provided the channel had opened (the \<^verbatim>\<open>open\<close> callback is what
  adds the resolving listener); an \<^verbatim>\<open>error\<close> event of its channel rejects it, at once and
  whether or not the channel had opened. Once settled it never changes: a \<^verbatim>\<open>close\<close> that
  follows an \<^verbatim>\<open>error\<close> leaves it rejected.
\<close>

theorem lifecycle_settlement:
  "lifecycle (sockets (connectOnce c) ! length (sockets c)) = Pending \<and>
   \<not> close_listener (sockets (connectOnce c) ! length (sockets c)) \<and>
   (w < length (sockets c) \<longrightarrow>
      close_listener (sockets (step c e) ! w) =
        (close_listener (sockets c ! w) \<or>
         e = WsOpen w \<and> readyState (sockets c ! w) = CONNECTING)) \<and>
   (w < length (sockets c) \<and> lifecycle (sockets c ! w) = Pending \<longrightarrow>
      lifecycle (sockets (step c e) ! w) =
        (case e of
           WsClosed w' \<Rightarrow>
             if w' = w \<and> readyState (sockets c ! w) \<noteq> CLOSED \<and>
                close_listener (sockets c ! w)
             then Fulfilled else Pending
         | WsError w' err \<Rightarrow>
             if w' = w \<and> readyState (sockets c ! w) \<noteq> CLOSED then Rejected err
             else Pending
         | _ \<Rightarrow> Pending)) \<and>
   (w < length (sockets c) \<and> lifecycle (sockets c ! w) \<noteq> Pending \<longrightarrow>
      lifecycle (sockets (step c e) ! w) = lifecycle (sockets c ! w))"
proof -
  have "lifecycle (sockets (connectOnce c) ! length (sockets c)) = Pending \<and>
        \<not> close_listener (sockets (connectOnce c) ! length (sockets c))"
    by (simp add: connectOnce_def emit_def Let_def)
  with close_listener_step [of w c e] lifecycle_step_pending [of w c e]
    lifecycle_step_settled [of w c e]
  show ?thesis by blast
qed

theorem lifecycle_settlement_witness:
  "lifecycle (sockets example_client ! 0) = Pending \<and>
   lifecycle (sockets (step example_client (WsClosed 0)) ! 0) = Fulfilled \<and>
   lifecycle (sockets (step (step example_client (WsClosed 0)) (WsClosed 0)) ! 0) =
     Fulfilled"
  using lifecycle_settlement [of example_client 0 "WsClosed 0"]
        lifecycle_settlement [of "step example_client (WsClosed 0)" 0 "WsClosed 0"]
  by (simp add: client_defs example_defs)


subsection \<open>After close()\<close>

lemma quiescent_step:
  assumes "quiescent c" and "e \<noteq> CallConnect"
  shows "quiescent (step c e) \<and> frames (step c e) = frames c \<and>
         filter is_ping (trace (step c e)) = filter is_ping (trace c) \<and>
         filter is_new_socket (trace (step c e)) = filter is_new_socket (trace c)"
proof -
  from assms(1) have q: "closed c" "ws c = None"
    "list_all (\<lambda>s. readyState s = CLOSING \<or> readyState s = CLOSED) (sockets c)"
    by (simp_all add: quiescent_def)
  have nth: "\<And>w. w < length (sockets c) \<Longrightarrow>
               readyState (sockets c ! w) = CLOSING \<or> readyState (sockets c ! w) = CLOSED"
    using list_all_nth [OF q(3)] by simp
  show ?thesis
  proof (cases e)
    case CallConnect
    with assms(2) show ?thesis by simp
  next
    case (WsOpen w)
    then show ?thesis using assms(1) nth [of w] by (auto simp: step_def)
  next
    case (PingTimer w)
    then show ?thesis using assms(1) nth [of w]
      by (auto simp: step_def ws_on_ping_interval_def)
  next
    case (WsError w err)
    then show ?thesis using q
      by (simp add: quiescent_def frames_def handler_nf error_report_def list_all_update
          split: event_splits)
  next
    case (WsClosed w)
    then show ?thesis using q
      by (simp add: quiescent_def frames_def handler_nf list_all_update split: event_splits)
  qed (use q in \<open>simp_all add: quiescent_def frames_def handler_nf response_frame_def
        can_send_def send_throws_def split: event_splits\<close>)
qed

lemma quiescent_run:
  "quiescent c \<Longrightarrow> CallConnect \<notin> set evs \<Longrightarrow>
   quiescent (run c evs) \<and> frames (run c evs) = frames c \<and>
   filter is_ping (trace (run c evs)) = filter is_ping (trace c) \<and>
   filter is_new_socket (trace (run c evs)) = filter is_new_socket (trace c)"
proof (induction evs arbitrary: c)
  case Nil
  then show ?case by simp
next
  case (Cons e evs)
  from Cons.prems have "e \<noteq> CallConnect" and rest: "CallConnect \<notin> set evs" by auto
  from quiescent_step [OF Cons.prems(1) this(1)]
  have st: "quiescent (step c e)" "frames (step c e) = frames c"
    "filter is_ping (trace (step c e)) = filter is_ping (trace c)"
    "filter is_new_socket (trace (step c e)) = filter is_new_socket (trace c)"
    by simp_all
  from Cons.IH [OF st(1) rest] st show ?case by simp
qed

lemma close_quiescent:
  assumes "no_stray_socket c"
  shows "quiescent (close c)"
proof -
  from assms have stray: "\<And>w. w < length (sockets c) \<Longrightarrow> ws c \<noteq> Some w \<Longrightarrow>
      readyState (sockets c ! w) = CLOSING \<or> readyState (sockets c ! w) = CLOSED"
    by (auto simp: no_stray_socket_def list_all_iff)
  show ?thesis
  proof (cases "ws c")
    case None
    with stray show ?thesis
      by (simp add: quiescent_def handler_nf list_all_length)
  next
    case (Some w)
    have "readyState s = CONNECTING \<or> readyState s = OPEN \<or> readyState s = CLOSING \<or>
          readyState s = CLOSED" for s :: websocket
      by (cases "readyState s") simp_all
    with Some stray show ?thesis
      by (auto simp: quiescent_def handler_nf list_all_length nth_update_any)
  qed
qed

text \<open>
  What \<^verbatim>\<open>close()\<close> does at once: every registered stream socket is destroyed, the registry
  is empty and the client is closed and holds no channel. When every WebSocket that was
  still connecting or open was the one the client held, nothing that happens afterwards
  (short of a new call of \<^verbatim>\<open>connect()\<close>) sends a frame or a ping or makes a WebSocket;
  and a \<^verbatim>\<open>tcp_data\<close> message opens no socket and writes to none.
\<close>

lemma close_is_final:
  "trace (close c) =
     trace c @ map SockDestroy (map snd (tcpConnections c)) @
       (case ws c of None \<Rightarrow> [] | Some w \<Rightarrow> [WsCloseCall w]) \<and>
   tcpConnections (close c) = [] \<and> closed (close c) \<and> ws (close c) = None \<and>
   handleTCPData (close c) connId d = close c \<and>
   (no_stray_socket c \<and> CallConnect \<notin> set evs \<longrightarrow>
      frames (run (close c) evs) = frames (close c) \<and>
      filter is_ping (trace (run (close c) evs)) = filter is_ping (trace (close c)) \<and>
      filter is_new_socket (trace (run (close c) evs)) =
        filter is_new_socket (trace (close c)) \<and>
      closed (run (close c) evs) \<and> ws (run (close c) evs) = None)"
proof -
  have "no_stray_socket c \<and> CallConnect \<notin> set evs \<longrightarrow>
      frames (run (close c) evs) = frames (close c) \<and>
      filter is_ping (trace (run (close c) evs)) = filter is_ping (trace (close c)) \<and>
      filter is_new_socket (trace (run (close c) evs)) =
        filter is_new_socket (trace (close c)) \<and>
      closed (run (close c) evs) \<and> ws (run (close c) evs) = None"
    using quiescent_run [of "close c" evs] close_quiescent [of c]
    by (auto simp: quiescent_def)
  moreover have "trace (close c) =
     trace c @ map SockDestroy (map snd (tcpConnections c)) @
       (case ws c of None \<Rightarrow> [] | Some w \<Rightarrow> [WsCloseCall w]) \<and>
   tcpConnections (close c) = [] \<and> closed (close c) \<and> ws (close c) = None \<and>
   handleTCPData (close c) connId d = close c"
    by (simp add: handler_nf split: option.split)
  ultimately show ?thesis by blast
qed

text \<open>
  C4: the code breaks the claim. The \<^verbatim>\<open>close\<close> listener of line 121 sets \<^verbatim>\<open>this.ws\<close> to
  null whichever WebSocket it belongs to. Here the first WebSocket opens and fails, the
  loop sleeps and makes a second one, and then the first one emits its \<^verbatim>\<open>close\<close>: the
  client no longer holds the second WebSocket, \<^verbatim>\<open>close()\<close> finds no channel to close, and
  when the second WebSocket opens, the handshake frame is sent on it, after \<^verbatim>\<open>close()\<close>
  has returned; its ping timer then runs as well.
\<close>

theorem handshake_after_close:
  "feasible (Client_new example_node example_options)
     (late_close_events @ [CallClose, WsOpen 1, PingTimer 1]) \<and>
   closed (run (Client_new example_node example_options) (late_close_events @ [CallClose])) \<and>
   ws (run (Client_new example_node example_options) (late_close_events @ [CallClose])) = None \<and>
   trace (run (Client_new example_node example_options)
            (late_close_events @ [CallClose, WsOpen 1, PingTimer 1])) =
     trace (run (Client_new example_node example_options) (late_close_events @ [CallClose])) @
       [WsSend 1 (Open_tunnel ''key'' Http 0), WsPing 1]"
  by (simp add: client_defs example_defs)



end
